theory Spec2Isabelle
  imports Complex_Main
begin

section \<open>Data model\<close>

text \<open>
  The forecasting module of the course-bidding application, embedded function by function.

  JavaScript numbers are modelled as exact reals and the module's decimal constants as the
  rationals they denote, so rounding error of the floating-point operations is outside the
  model. \<open>Math.round\<close> is \<open>round\<close> (\<open>\<lfloor>x + 1/2\<rfloor>\<close>: halves go towards plus infinity,
  as in JavaScript). A division whose divisor can be zero on an input the module accepts is
  modelled with an explicit result for the non-finite cases (type \<open>number\<close> below); every
  other division is guarded in the source or has a divisor that is non-zero on what the
  callers inside the module pass: positive time weights, a positive expected price and
  standard deviation in the log-normal distribution, positive ratios between phases.

  Two consequences of the exact arithmetic bound what the statements below say. A product
  that is exactly a half above a whole number is rounded up here, while the
  double-precision product of the source can fall just below the half and be rounded
  down (50 times 1.15 is 57.49999999999999 in the source); a statement about a rounded
  product therefore names both neighbouring whole numbers. And the exponential of
  \<open>calculateTimeWeight\<close> is positive here, while \<open>Math.exp\<close> underflows to 0 for a term
  far in the past, in particular for a term that \<open>parseTermToNumber\<close> does not recognise,
  and overflows for a term far in the future; a statement about the numbers of a forecast
  is therefore made for terms in the range where neither happens (\<open>recentTerms\<close> below),
  or in a form that also holds of a result that is not a number.
  The system clock read by \<open>getCurrentTermNumber\<close> is an explicit argument.
  An optional value is an \<open>option\<close>, with \<open>None\<close> for \<open>undefined\<close>.
\<close>

datatype number = Num real | PosInf | NegInf | NaN

datatype PhaseType = P1 | P2 | P3 | P4 | PWYB

record HistoricalBid =
  termName :: string
  phase :: PhaseType
  clearingPrice :: real
  spotsAvailable :: real
  bidsPlaced :: real

record ProfessorData =
  rating :: real

record CourseContext =
  courseId :: string
  courseName :: string
  professor :: string
  historicalBids :: "HistoricalBid list"
  professorData :: "ProfessorData option"
  meetingTime :: "string option"
  campus :: "string option"

datatype Confidence = High | Medium | Low | Insufficient

datatype Trend = Rising | Stable | Falling | Unknown

text \<open>
  A piece of generated text: the template of the source's template literal, with the numbers
  interpolated into it kept as arguments (their formatting by \<open>toFixed\<close> is presentation).
\<close>

datatype message = Msg string "real list"

record ForecastFactor =
  name :: string
  impact :: real
  description :: message

record CurvePoint =
  bid :: real
  probability :: real

record ForecastResult =
  forecastPhaseOf :: PhaseType
  expectedPrice :: real
  safeBid :: real
  aggressiveBid :: real
  minimumBid :: real
  confidence :: Confidence
  dataPoints :: nat
  trend :: Trend
  trendStrength :: number
  trendSignificant :: "bool option"
  volatility :: real
  demandPressure :: real
  uncertaintyMargin :: "real option"
  factors :: "ForecastFactor list"
  probabilityData :: "CurvePoint list option"

record Forecasts =
  phase1 :: ForecastResult
  phase2 :: ForecastResult
  phase3 :: ForecastResult
  phase4 :: ForecastResult

record CompleteForecast =
  forecastCourseId :: string
  forecastProfessor :: string
  forecasts :: Forecasts
  overallRecommendation :: message
  strategyNotes :: "message list"

section \<open>Configuration constants\<close>

definition TIME_DECAY_FACTOR :: real where "TIME_DECAY_FACTOR = 0.3"
definition INFLATION_RATE :: real where "INFLATION_RATE = 0.03"
definition MIN_DATA_HIGH_CONFIDENCE :: nat where "MIN_DATA_HIGH_CONFIDENCE = 6"
definition MIN_DATA_MEDIUM_CONFIDENCE :: nat where "MIN_DATA_MEDIUM_CONFIDENCE = 3"
definition MIN_DATA_LOW_CONFIDENCE :: nat where "MIN_DATA_LOW_CONFIDENCE = 1"
definition RATING_STAR :: real where "RATING_STAR = 5.5"
definition RATING_ABOVE_AVERAGE :: real where "RATING_ABOVE_AVERAGE = 5.0"
definition RATING_AVERAGE :: real where "RATING_AVERAGE = 4.5"
definition RATING_IMPACT_SCALE :: real where "RATING_IMPACT_SCALE = 0.25"
definition DEMAND_VERY_HIGH :: real where "DEMAND_VERY_HIGH = 3.0"
definition DEMAND_HIGH :: real where "DEMAND_HIGH = 2.0"
definition DEMAND_MODERATE :: real where "DEMAND_MODERATE = 1.5"
definition DEFAULT_P2_VS_P1 :: real where "DEFAULT_P2_VS_P1 = 1.15"
definition DEFAULT_P3_VS_P1 :: real where "DEFAULT_P3_VS_P1 = 0.85"
definition DEFAULT_P4_VS_P1 :: real where "DEFAULT_P4_VS_P1 = 0.70"
definition BASE_MARGIN :: real where "BASE_MARGIN = 0.15"
definition SCARCITY_PENALTY :: real where "SCARCITY_PENALTY = 0.10"
definition MIN_MARGIN :: real where "MIN_MARGIN = 0.05"
definition MAX_MARGIN :: real where "MAX_MARGIN = 0.50"
definition TREND_MIN_POINTS :: nat where "TREND_MIN_POINTS = 3"
definition CAMPUS_CHICAGO :: real where "CAMPUS_CHICAGO = 0.95"
definition CAMPUS_EVANSTON :: real where "CAMPUS_EVANSTON = 1.0"
definition SLOT_MORNING_EARLY :: real where "SLOT_MORNING_EARLY = 0.90"
definition SLOT_MORNING :: real where "SLOT_MORNING = 1.0"
definition SLOT_AFTERNOON :: real where "SLOT_AFTERNOON = 1.05"
definition SLOT_EVENING :: real where "SLOT_EVENING = 0.95"

section \<open>Strings and the two regular expressions\<close>

text \<open>
  Characters are bytes; case folding and the classes \<open>\d\<close> and \<open>\s\<close> are taken on ASCII.
\<close>

definition toLowerChar :: "char \<Rightarrow> char" where
  "toLowerChar c =
     (case map_of (zip ''ABCDEFGHIJKLMNOPQRSTUVWXYZ'' ''abcdefghijklmnopqrstuvwxyz'') c of
        Some l \<Rightarrow> l
      | None \<Rightarrow> c)"

definition toLowerCase :: "string \<Rightarrow> string" where
  "toLowerCase s = map toLowerChar s"

definition isDigit :: "char \<Rightarrow> bool" where
  "isDigit c = (let n = (of_char c :: nat) in 48 \<le> n \<and> n \<le> 57)"

definition isSpace :: "char \<Rightarrow> bool" where
  "isSpace c = (let n = (of_char c :: nat) in n = 32 \<or> (9 \<le> n \<and> n \<le> 13))"

text \<open>\<open>parseInt\<close> on a string of decimal digits.\<close>

definition parseDigits :: "string \<Rightarrow> int" where
  "parseDigits s = foldl (\<lambda>acc c. acc * 10 + (int (of_char c) - 48)) 0 s"

text \<open>\<open>s.includes(t)\<close>.\<close>

fun str_includes :: "string \<Rightarrow> string \<Rightarrow> bool" where
  "str_includes [] t = (t = [])"
| "str_includes (c # cs) t = (take (length t) (c # cs) = t \<or> str_includes cs t)"

text \<open>
  \<open>/(Winter|Spring|Summer|Fall)\s+(\d{4})/i\<close>: the match anchored at the head of the
  string, then the leftmost match. The result is the pair of groups, the season already in
  lower case.
\<close>

definition matchTermAt :: "string \<Rightarrow> (string \<times> string) option" where
  "matchTermAt s =
     (case find (\<lambda>w. toLowerCase (take (length w) s) = w)
                [''winter'', ''spring'', ''summer'', ''fall''] of
        None \<Rightarrow> None
      | Some w \<Rightarrow>
          let rest = drop (length w) s;
              digits = dropWhile isSpace rest
          in if rest \<noteq> [] \<and> isSpace (hd rest) \<and> 4 \<le> length digits
                \<and> list_all isDigit (take 4 digits)
             then Some (w, take 4 digits) else None)"

fun matchTerm :: "string \<Rightarrow> (string \<times> string) option" where
  "matchTerm [] = None"
| "matchTerm (c # cs) =
     (case matchTermAt (c # cs) of Some m \<Rightarrow> Some m | None \<Rightarrow> matchTerm cs)"

text \<open>
  \<open>/(\d{1,2}):(\d{2})(AM|PM)/i\<close>: the greedy \<open>\d{1,2}\<close> tries two digits first. The
  result is the hour group and whether the third group is PM.
\<close>

definition matchClockTail :: "string \<Rightarrow> string \<Rightarrow> (string \<times> bool) option" where
  "matchClockTail hours s =
     (if 5 \<le> length s \<and> s ! 0 = CHR '':'' \<and> isDigit (s ! 1) \<and> isDigit (s ! 2)
         \<and> toLowerCase (take 2 (drop 3 s)) \<in> {''am'', ''pm''}
      then Some (hours, toLowerCase (take 2 (drop 3 s)) = ''pm'') else None)"

definition matchClockAt :: "string \<Rightarrow> (string \<times> bool) option" where
  "matchClockAt s =
     (case (if 2 \<le> length s \<and> isDigit (s ! 0) \<and> isDigit (s ! 1)
            then matchClockTail (take 2 s) (drop 2 s) else None) of
        Some m \<Rightarrow> Some m
      | None \<Rightarrow>
          if 1 \<le> length s \<and> isDigit (s ! 0) then matchClockTail (take 1 s) (drop 1 s)
          else None)"

fun matchClock :: "string \<Rightarrow> (string \<times> bool) option" where
  "matchClock [] = None"
| "matchClock (c # cs) =
     (case matchClockAt (c # cs) of Some m \<Rightarrow> Some m | None \<Rightarrow> matchClock cs)"

section \<open>Utility functions\<close>

definition seasonOrder :: "string \<Rightarrow> int" where
  "seasonOrder season =
     (if season = ''winter'' then 0 else if season = ''spring'' then 1
      else if season = ''summer'' then 2 else if season = ''fall'' then 3 else 0)"

definition parseTermToNumber :: "string \<Rightarrow> int" where
  "parseTermToNumber t =
     (case matchTerm t of
        None \<Rightarrow> 0
      | Some (season, year) \<Rightarrow> parseDigits year * 10 + seasonOrder season)"

text \<open>The clock: what \<open>new Date()\<close> gives, the full year and the month \<open>0..11\<close>.\<close>

record Clock =
  getFullYear :: int
  getMonth :: nat

definition getCurrentTermNumber :: "Clock \<Rightarrow> int" where
  "getCurrentTermNumber now =
     (let year = getFullYear now;
          month = getMonth now;
          season = (if month \<le> 2 then 0 else if month \<le> 5 then 1
                    else if month \<le> 7 then 2 else 3)
      in year * 10 + season)"

text \<open>
  \<open>Math.exp\<close> is the exact exponential, which is positive. The double-precision
  exponential of the source is 0 for an exponent below about -745 and \<open>Infinity\<close> for
  one above about 709 (a term more than about 9900 term numbers before or 9400 after the
  current one).
\<close>

definition calculateTimeWeight :: "int \<Rightarrow> int \<Rightarrow> real" where
  "calculateTimeWeight termNumber currentTermNumber =
     (let termsDiff = real_of_int (currentTermNumber - termNumber);
          yearsDiff = termsDiff / 4
      in exp (- TIME_DECAY_FACTOR * yearsDiff))"

record WeightedStats =
  mean :: real
  median :: real
  stdDev :: real

fun percentileLoop :: "real \<Rightarrow> real \<Rightarrow> (real \<times> real) list \<Rightarrow> real option" where
  "percentileLoop p cumWeight [] = None"
| "percentileLoop p cumWeight ((v, w) # rest) =
     (if cumWeight + w \<ge> p then Some v else percentileLoop p (cumWeight + w) rest)"

definition normalizedWeights :: "real list \<Rightarrow> real list" where
  "normalizedWeights weights = (let totalWeight = sum_list weights in map (\<lambda>w. w / totalWeight) weights)"

text \<open>The closure \<open>percentile\<close> returned by \<open>weightedStatistics\<close>, for a non-empty series.\<close>

definition percentile :: "real list \<Rightarrow> real list \<Rightarrow> real \<Rightarrow> real" where
  "percentile vals weights p =
     (let nw = normalizedWeights weights;
          sortedPairs = sort_key fst (map (\<lambda>i. (vals ! i, nw ! i)) [0..<length vals])
      in case percentileLoop p 0 sortedPairs of
           Some v \<Rightarrow> v
         | None \<Rightarrow> fst (last sortedPairs))"

definition weightedStatistics :: "real list \<Rightarrow> real list \<Rightarrow> WeightedStats" where
  "weightedStatistics vals weights =
     (if length vals = 0 then \<lparr>mean = 0, median = 0, stdDev = 0\<rparr>
      else
        let nw = normalizedWeights weights;
            m = (\<Sum>i \<leftarrow> [0..<length vals]. vals ! i * nw ! i);
            variance = (\<Sum>i \<leftarrow> [0..<length vals]. nw ! i * (vals ! i - m)\<^sup>2)
        in \<lparr>mean = m, median = percentile vals weights 0.5, stdDev = sqrt variance\<rparr>)"

section \<open>Special functions\<close>

text \<open>The Abramowitz and Stegun approximation of the error function.\<close>

definition erf :: "real \<Rightarrow> real" where
  "erf x0 =
     (let sign = (if x0 \<ge> 0 then 1 else -1);
          x = \<bar>x0\<bar>;
          a1 = 0.254829592;
          a2 = -0.284496736;
          a3 = 1.421413741;
          a4 = -1.453152027;
          a5 = 1.061405429;
          p = 0.3275911;
          t = 1.0 / (1.0 + p * x);
          y = 1.0 - (((((a5 * t + a4) * t) + a3) * t + a2) * t + a1) * t * exp (- x * x)
      in sign * y)"

definition lanczos :: "real list" where
  "lanczos =
     [0.99999999999980993, 676.5203681218851, -1259.1392167224028, 771.32342877765313,
      -176.61502916214059, 12.507343278686905, -0.13857109526572012,
      9.9843695780195716 / 10 ^ 6, 1.5056327351493116 / 10 ^ 7]"

function logGamma :: "real \<Rightarrow> real" where
  "logGamma x =
     (if x < 0.5 then ln (pi / sin (pi * x)) - logGamma (1 - x)
      else
        let g = 7;
            x1 = x - 1;
            a = foldl (\<lambda>a i. a + lanczos ! i / (x1 + real i)) (lanczos ! 0) [1..<g + 2];
            t = x1 + real g + 0.5
        in 0.5 * ln (2 * pi) + (x1 + 0.5) * ln t - t + ln a)"
  by pat_completeness auto
termination
  by (relation "measure (\<lambda>x. if x < 0.5 then 1 else 0)") auto

definition logBeta :: "real \<Rightarrow> real \<Rightarrow> real" where
  "logBeta a b = logGamma a + logGamma b - logGamma (a + b)"

text \<open>
  The continued fraction of \<open>betaCF\<close> (Lentz's algorithm): the loop runs \<open>i = 1 .. 100\<close>
  and leaves early once a step changes \<open>h\<close> by less than \<open>epsilon\<close>.
\<close>

definition floorEps :: "real \<Rightarrow> real" where
  "floorEps d = (if \<bar>d\<bar> < 1 / 10 ^ 10 then 1 / 10 ^ 10 else d)"

function betaCFLoop :: "nat \<Rightarrow> real \<Rightarrow> real \<Rightarrow> real \<Rightarrow> real \<Rightarrow> real \<Rightarrow> real \<Rightarrow> real" where
  "betaCFLoop i x a b c d h =
     (if i \<le> 100 then
        let qab = a + b;
            qap = a + 1;
            qam = a - 1;
            m2 = 2 * real i;
            aa = real i * (b - real i) * x / ((qam + m2) * (a + m2));
            d1 = floorEps (1 + aa * d);
            c1 = floorEps (1 + aa / c);
            d2 = 1 / d1;
            h1 = h * (d2 * c1);
            aa2 = - (a + real i) * (qab + real i) * x / ((a + m2) * (qap + m2));
            d3 = floorEps (1 + aa2 * d2);
            c2 = floorEps (1 + aa2 / c1);
            d4 = 1 / d3;
            del = d4 * c2;
            h2 = h1 * del
        in if \<bar>del - 1\<bar> < 1 / 10 ^ 10 then h2 else betaCFLoop (i + 1) x a b c2 d4 h2
      else h)"
  by pat_completeness auto
termination
  by (relation "measure (\<lambda>(i, x, a, b, c, d, h). 101 - i)") auto

definition betaCF :: "real \<Rightarrow> real \<Rightarrow> real \<Rightarrow> real" where
  "betaCF x a b =
     (let qab = a + b;
          qap = a + 1;
          d = 1 / floorEps (1 - qab * x / qap)
      in betaCFLoop 1 x a b 1 d d)"

definition incompleteBeta :: "real \<Rightarrow> real \<Rightarrow> real \<Rightarrow> real" where
  "incompleteBeta x a b =
     (if x = 0 then 0
      else if x = 1 then 1
      else
        let bt = exp (a * ln x + b * ln (1 - x) - ln a - logBeta a b)
        in if x < (a + 1) / (a + b + 2) then bt * betaCF x a b / a
           else 1 - bt * betaCF (1 - x) b a / b)"

definition tCDF :: "real \<Rightarrow> real \<Rightarrow> real" where
  "tCDF t df =
     (if df > 30 then 0.5 * (1 + erf (t / sqrt 2))
      else
        let x = df / (df + t * t);
            a = df / 2;
            b = 0.5;
            beta = incompleteBeta x a b
        in if t \<ge> 0 then 1 - 0.5 * beta else 0.5 * beta)"

section \<open>Trend detection\<close>

text \<open>
  \<open>slope / meanY\<close> is the one division of \<open>detectTrend\<close> whose divisor can be zero while
  the weights are positive (a series of prices with weighted mean zero). \<open>meanY\<close> is then
  the positive zero, so the quotient is an infinity of the sign of the slope, or \<open>NaN\<close> for
  a zero slope. The comparisons and \<open>Math.min(Math.abs(x) / 0.5, 1)\<close> on such a value follow.
\<close>

definition jsDivide :: "real \<Rightarrow> real \<Rightarrow> number" where
  "jsDivide x y =
     (if y \<noteq> 0 then Num (x / y)
      else if x > 0 then PosInf else if x < 0 then NegInf else NaN)"

fun numGreater :: "number \<Rightarrow> real \<Rightarrow> bool" where
  "numGreater (Num x) c = (x > c)"
| "numGreater PosInf c = True"
| "numGreater NegInf c = False"
| "numGreater NaN c = False"

fun numLess :: "number \<Rightarrow> real \<Rightarrow> bool" where
  "numLess (Num x) c = (x < c)"
| "numLess PosInf c = False"
| "numLess NegInf c = True"
| "numLess NaN c = False"

fun cappedStrength :: "number \<Rightarrow> number" where
  "cappedStrength (Num x) = Num (min (\<bar>x\<bar> / 0.5) 1)"
| "cappedStrength PosInf = Num 1"
| "cappedStrength NegInf = Num 1"
| "cappedStrength NaN = NaN"

record TrendResult =
  trendOf :: Trend
  strength :: number
  pValue :: real
  isSignificant :: bool

text \<open>\<open>Math.min(...xs)\<close> and \<open>Math.max(...xs)\<close> of a non-empty array.\<close>

definition minOf :: "real list \<Rightarrow> real" where
  "minOf xs = foldl min (hd xs) (tl xs)"

definition maxOf :: "real list \<Rightarrow> real" where
  "maxOf xs = foldl max (hd xs) (tl xs)"

text \<open>
  \<open>detectTrend\<close> is embedded in two parts: the regression up to the early return for a
  degenerate denominator (\<open>detectTrend\<close> itself), and the significance test and the
  classification that follow (\<open>slopeSignificance\<close>), which receive the values computed so
  far. The residuals of a series that lies exactly on a line are 0 in exact arithmetic,
  which gives the t statistic 0 and no significance; in the source they are the rounding
  noise of the regression, so that the significance of such a series is outside the model.
\<close>

definition slopeSignificance ::
  "real list \<Rightarrow> real list \<Rightarrow> real list \<Rightarrow> real \<Rightarrow> real \<Rightarrow> real \<Rightarrow> real \<Rightarrow> TrendResult" where
  "slopeSignificance prices normalizedTerms weights totalWeight meanX meanY slope =
     (let n = length prices;
          intercept = meanY - slope * meanX;
          sumSquaredResiduals =
            (\<Sum>i \<leftarrow> [0..<n].
               weights ! i * (prices ! i - (intercept + slope * normalizedTerms ! i))
                 * (prices ! i - (intercept + slope * normalizedTerms ! i)));
          sumWXXCentered = (\<Sum>i \<leftarrow> [0..<n]. weights ! i * (normalizedTerms ! i - meanX)\<^sup>2);
          effectiveN = totalWeight\<^sup>2 / (\<Sum>w \<leftarrow> weights. w * w);
          df = max 1 (effectiveN - 2);
          mse = sumSquaredResiduals / df;
          seSlope = sqrt (mse / (totalWeight * sumWXXCentered / totalWeight));
          tStat = (if seSlope > 0 then \<bar>slope\<bar> / seSlope else 0);
          pVal = (if tStat > 0 then 2 * (1 - tCDF tStat df) else 1);
          significant = (pVal < 0.10);
          percentageChange = jsDivide slope meanY;
          tr = (if significant \<and> numGreater percentageChange 0.05 then Rising
                else if significant \<and> numLess percentageChange (- 0.05) then Falling
                else Stable)
      in \<lparr>trendOf = tr, strength = cappedStrength percentageChange, pValue = pVal,
          isSignificant = significant\<rparr>)"

definition detectTrend :: "real list \<Rightarrow> real list \<Rightarrow> real list \<Rightarrow> TrendResult" where
  "detectTrend prices terms weights =
     (if length prices < TREND_MIN_POINTS
      then \<lparr>trendOf = Unknown, strength = Num 0, pValue = 1, isSignificant = False\<rparr>
      else
        let n = length prices;
            totalWeight = sum_list weights;
            minTerm = minOf terms;
            maxTerm = maxOf terms;
            termRange = (if maxTerm - minTerm = 0 then 1 else maxTerm - minTerm);
            normalizedTerms = map (\<lambda>t. (t - minTerm) / termRange) terms;
            sumWX = (\<Sum>i \<leftarrow> [0..<n]. weights ! i * normalizedTerms ! i);
            sumWY = (\<Sum>i \<leftarrow> [0..<n]. weights ! i * prices ! i);
            sumWXX = (\<Sum>i \<leftarrow> [0..<n]. weights ! i * normalizedTerms ! i * normalizedTerms ! i);
            sumWXY = (\<Sum>i \<leftarrow> [0..<n]. weights ! i * normalizedTerms ! i * prices ! i);
            meanX = sumWX / totalWeight;
            meanY = sumWY / totalWeight;
            numerator = sumWXY / totalWeight - meanX * meanY;
            denominator = sumWXX / totalWeight - meanX * meanX
        in if \<bar>denominator\<bar> < 0.0001
           then \<lparr>trendOf = Stable, strength = Num 0, pValue = 1, isSignificant = False\<rparr>
           else slopeSignificance prices normalizedTerms weights totalWeight meanX meanY
                  (numerator / denominator))"

section \<open>Adjustments\<close>

record RatingImpact =
  multiplier :: real
  ratingDescription :: message

definition calculateRatingImpact :: "real option \<Rightarrow> RatingImpact" where
  "calculateRatingImpact r =
     (case r of
        None \<Rightarrow> \<lparr>multiplier = 1.0, ratingDescription = Msg ''No rating data'' []\<rparr>
      | Some x \<Rightarrow>
          if x = 0 then \<lparr>multiplier = 1.0, ratingDescription = Msg ''No rating data'' []\<rparr>
          else
            let normalized = (x - 5.0) / 1.5;
                imp = RATING_IMPACT_SCALE * tanh normalized;
                d = (if x \<ge> RATING_STAR
                       then Msg ''Star professor (${rating.toFixed(1)}) - high demand expected'' [x]
                     else if x \<ge> RATING_ABOVE_AVERAGE
                       then Msg ''Above average rating (${rating.toFixed(1)}) - moderate demand boost'' [x]
                     else if x \<ge> RATING_AVERAGE
                       then Msg ''Average rating (${rating.toFixed(1)}) - typical demand'' [x]
                     else Msg ''Below average rating (${rating.toFixed(1)}) - potentially lower demand'' [x])
            in \<lparr>multiplier = 1 + imp, ratingDescription = d\<rparr>)"

record DemandPressure =
  pressure :: real
  pressureDescription :: message

text \<open>
  The loop of \<open>calculateDemandPressure\<close> runs over the indices of \<open>bidsPlaced\<close> and reads
  the three arrays at the same index; \<open>spotsAvailable[i]\<close> beyond the end of that array is
  \<open>undefined\<close>, which fails the test \<open>> 0\<close>. The accumulator is the pair
  \<open>(totalWeightedRatio, totalWeight)\<close>.
\<close>

definition demandLoop :: "real list \<Rightarrow> real list \<Rightarrow> real list \<Rightarrow> real \<times> real" where
  "demandLoop bids spots weights =
     foldl (\<lambda>(totalWeightedRatio, totalWeight) i.
              if i < length spots \<and> spots ! i > 0 \<and> bids ! i > 0
              then (totalWeightedRatio + bids ! i / spots ! i * weights ! i,
                    totalWeight + weights ! i)
              else (totalWeightedRatio, totalWeight))
           (0, 0) [0..<length bids]"

definition calculateDemandPressure :: "real list \<Rightarrow> real list \<Rightarrow> real list \<Rightarrow> DemandPressure" where
  "calculateDemandPressure bids spots weights =
     (if length bids = 0 \<or> list_all (\<lambda>s. s = 0) spots
      then \<lparr>pressure = 0.5, pressureDescription = Msg ''No demand data available'' []\<rparr>
      else
        let (totalWeightedRatio, totalWeight) = demandLoop bids spots weights
        in if totalWeight = 0
           then \<lparr>pressure = 0.5, pressureDescription = Msg ''Insufficient demand data'' []\<rparr>
           else
             let avgRatio = totalWeightedRatio / totalWeight;
                 normalized = (avgRatio - 2.0) / 1.5;
                 p = 1 / (1 + exp (- normalized));
                 d = (if avgRatio \<ge> DEMAND_VERY_HIGH
                        then Msg ''Very high demand (${avgRatio.toFixed(1)} bids/seat)'' [avgRatio]
                      else if avgRatio \<ge> DEMAND_HIGH
                        then Msg ''High demand (${avgRatio.toFixed(1)} bids/seat)'' [avgRatio]
                      else if avgRatio \<ge> DEMAND_MODERATE
                        then Msg ''Moderate demand (${avgRatio.toFixed(1)} bids/seat)'' [avgRatio]
                      else Msg ''Low demand (${avgRatio.toFixed(1)} bids/seat)'' [avgRatio])
             in \<lparr>pressure = p, pressureDescription = d\<rparr>)"

definition getTimeSlotAdjustment :: "string option \<Rightarrow> real" where
  "getTimeSlotAdjustment mt =
     (case mt of
        None \<Rightarrow> 1.0
      | Some s \<Rightarrow>
          if s = [] then 1.0
          else (case matchClock s of
                  None \<Rightarrow> 1.0
                | Some (h, isPM) \<Rightarrow>
                    let hours0 = parseDigits h;
                        hours1 = (if isPM \<and> hours0 \<noteq> 12 then hours0 + 12 else hours0);
                        hours = (if \<not> isPM \<and> hours1 = 12 then 0 else hours1)
                    in if hours < 9 then SLOT_MORNING_EARLY
                       else if hours < 13 then SLOT_MORNING
                       else if hours < 17 then SLOT_AFTERNOON
                       else SLOT_EVENING))"

definition getCampusAdjustment :: "string option \<Rightarrow> real" where
  "getCampusAdjustment c =
     (case c of
        None \<Rightarrow> 1.0
      | Some s \<Rightarrow>
          if s = [] then 1.0
          else if str_includes (toLowerCase s) ''chicago'' then CAMPUS_CHICAGO
          else CAMPUS_EVANSTON)"

definition determineConfidence :: "nat \<Rightarrow> Confidence" where
  "determineConfidence n =
     (if n \<ge> MIN_DATA_HIGH_CONFIDENCE then High
      else if n \<ge> MIN_DATA_MEDIUM_CONFIDENCE then Medium
      else if n \<ge> MIN_DATA_LOW_CONFIDENCE then Low
      else Insufficient)"

definition calculateUncertaintyMargin :: "nat \<Rightarrow> real \<Rightarrow> real" where
  "calculateUncertaintyMargin n vol =
     (let margin0 = BASE_MARGIN;
          dataShortfall = max 0 (real MIN_DATA_HIGH_CONFIDENCE - real n);
          margin1 = margin0 + dataShortfall * SCARCITY_PENALTY;
          margin2 = margin1 + vol * 0.3
      in max MIN_MARGIN (min MAX_MARGIN margin2))"

section \<open>Phase relationships\<close>

text \<open>
  A JavaScript \<open>Map\<close> is an association list in insertion order; \<open>set\<close> on a key that
  is present replaces its value in place.
\<close>

fun mapSet :: "'k \<Rightarrow> 'v \<Rightarrow> ('k \<times> 'v) list \<Rightarrow> ('k \<times> 'v) list" where
  "mapSet k v [] = [(k, v)]"
| "mapSet k v ((k', v') # m) = (if k = k' then (k', v) # m else (k', v') # mapSet k v m)"

definition bidsByTerm :: "HistoricalBid list \<Rightarrow> (string \<times> (PhaseType \<times> real) list) list" where
  "bidsByTerm allBids =
     foldl (\<lambda>m b.
              let phases = (case map_of m (termName b) of None \<Rightarrow> [] | Some ps \<Rightarrow> ps)
              in mapSet (termName b) (mapSet (phase b) (clearingPrice b) phases) m)
           [] allBids"

text \<open>
  The ratios pushed for one later phase: one per term, in the order of the terms, where
  the phase-1 price and the price of that phase are both present and positive.
\<close>

definition phaseRatios :: "PhaseType \<Rightarrow> (string \<times> (PhaseType \<times> real) list) list \<Rightarrow> real list" where
  "phaseRatios ph byTerm =
     concat (map (\<lambda>(t, phases).
                    case map_of phases P1 of
                      None \<Rightarrow> []
                    | Some p1 \<Rightarrow>
                        if p1 > 0
                        then (case map_of phases ph of
                                None \<Rightarrow> []
                              | Some p \<Rightarrow> if p > 0 then [p / p1] else [])
                        else [])
                 byTerm)"

definition medianRatio :: "real list \<Rightarrow> real" where
  "medianRatio ratios =
     (if length ratios = 0 then 0
      else
        let sorted = sort ratios;
            mid = length sorted div 2
        in if length sorted mod 2 \<noteq> 0 then sorted ! mid
           else (sorted ! (mid - 1) + sorted ! mid) / 2)"

definition calcConfidence :: "nat \<Rightarrow> real" where
  "calcConfidence n = (if n = 0 then 0 else if n \<ge> 5 then 1 else real n / 5)"

record PhaseMultipliers =
  P2_VS_P1 :: real
  P3_VS_P1 :: real
  P4_VS_P1 :: real
  P2_confidence :: real
  P3_confidence :: real
  P4_confidence :: real

definition calculateDataDrivenPhaseMultipliers :: "HistoricalBid list \<Rightarrow> PhaseMultipliers" where
  "calculateDataDrivenPhaseMultipliers allBids =
     (let byTerm = bidsByTerm allBids;
          p2p1Ratios = phaseRatios P2 byTerm;
          p3p1Ratios = phaseRatios P3 byTerm;
          p4p1Ratios = phaseRatios P4 byTerm;
          p2Median = medianRatio p2p1Ratios;
          p3Median = medianRatio p3p1Ratios;
          p4Median = medianRatio p4p1Ratios
      in \<lparr>P2_VS_P1 = (if length p2p1Ratios \<ge> 2 then p2Median else DEFAULT_P2_VS_P1),
          P3_VS_P1 = (if length p3p1Ratios \<ge> 2 then p3Median else DEFAULT_P3_VS_P1),
          P4_VS_P1 = (if length p4p1Ratios \<ge> 2 then p4Median else DEFAULT_P4_VS_P1),
          P2_confidence = calcConfidence (length p2p1Ratios),
          P3_confidence = calcConfidence (length p3p1Ratios),
          P4_confidence = calcConfidence (length p4p1Ratios)\<rparr>)"

section \<open>Win probability\<close>

definition logNormalCDF :: "real \<Rightarrow> real \<Rightarrow> real \<Rightarrow> real" where
  "logNormalCDF x mu sd =
     (if x \<le> 0 \<or> mu \<le> 0 then 0
      else
        let variance = sd * sd;
            sigma_log_sq = ln (1 + variance / (mu * mu));
            sigma_log = sqrt sigma_log_sq;
            mu_log = ln mu - 0.5 * sigma_log_sq;
            z = (ln x - mu_log) / (sigma_log * sqrt 2)
        in 0.5 * (1 + erf z))"

definition weightBeaten :: "real \<Rightarrow> real list \<Rightarrow> real list \<Rightarrow> real" where
  "weightBeaten b prices weights =
     (\<Sum>i \<leftarrow> [0..<length prices].
        if b \<ge> prices ! i then weights ! i
        else if b \<ge> prices ! i * 0.95 then weights ! i * 0.5
        else 0)"

definition calculateWinProbability :: "real \<Rightarrow> real list \<Rightarrow> real list \<Rightarrow> real \<Rightarrow> real \<Rightarrow> real" where
  "calculateWinProbability b prices weights expected sd =
     (if b \<le> 0 then 0
      else if length prices = 0 then
        (if expected \<le> 0 then 50
         else logNormalCDF b expected (max sd (expected * 0.2)) * 100)
      else
        let totalWeight = sum_list weights;
            empiricalProb = weightBeaten b prices weights / totalWeight;
            n = real (length prices);
            shrinkage = min 1 (n / 10);
            adjustedProb = shrinkage * empiricalProb + (1 - shrinkage) * 0.5;
            parametricProb = logNormalCDF b expected (max sd (expected * 0.15));
            empiricalWeight = min 1 (n / 6);
            finalProb = empiricalWeight * adjustedProb + (1 - empiricalWeight) * parametricProb
        in of_int (round (finalProb * 100)))"

text \<open>
  The sampling loop \<open>for (bid = minBid; bid <= maxBid; bid += step)\<close>. The bounds are
  rounded, so the bids are integers. The loop function receives the rounded quotient
  and takes \<open>Math.max(1, _)\<close> of it at the increment, which is the source's \<open>step\<close>.
\<close>

function curveLoop :: "(real \<Rightarrow> real) \<Rightarrow> int \<Rightarrow> int \<Rightarrow> int \<Rightarrow> CurvePoint list" where
  "curveLoop prob b maxBid stepRaw =
     (if b \<le> maxBid
      then \<lparr>bid = of_int b, probability = prob (of_int b)\<rparr>
             # curveLoop prob (b + max 1 stepRaw) maxBid stepRaw
      else [])"
  by pat_completeness auto
termination
  by (relation "measure (\<lambda>(prob, b, maxBid, stepRaw). nat (maxBid - b + 1))") auto

definition generateWinProbabilityCurve :: "real list \<Rightarrow> real list \<Rightarrow> real \<Rightarrow> real \<Rightarrow> CurvePoint list" where
  "generateWinProbabilityCurve prices weights expected sd =
     (if expected \<le> 0 then []
      else
        let minBid = max 0 (round (expected * 0.5));
            maxBid = round (expected * 1.5);
            stepRaw = round (real_of_int (maxBid - minBid) / 40)
        in curveLoop (\<lambda>b. calculateWinProbability b prices weights expected sd)
             minBid maxBid stepRaw)"

section \<open>Phase-specific forecasting\<close>

text \<open>
  \<open>forecastPhase\<close> is embedded in three parts: the loop that extracts the series of a
  phase (\<open>phaseSeries\<close>), the test for an empty series with the call of
  \<open>estimateFromOtherPhases\<close> (\<open>forecastPhase\<close> itself), and the rest of its body
  (\<open>forecastFromSeries\<close>). \<open>estimateFromOtherPhases\<close> is embedded as the choice of the
  base phase, the result for no data at all, and the transformation of the base forecast
  (\<open>deriveFromBase\<close>).
\<close>

record PhaseSeries =
  seriesPrices :: "real list"
  seriesTerms :: "real list"
  seriesWeights :: "real list"
  seriesBidsPlaced :: "real list"
  seriesSpotsAvailable :: "real list"

definition adjustedPrice :: "int \<Rightarrow> HistoricalBid \<Rightarrow> real" where
  "adjustedPrice currentTerm b =
     (let termNum = parseTermToNumber (termName b);
          yearsDiff = real_of_int (currentTerm - termNum) / 4;
          inflationFactor = (1 + INFLATION_RATE) powr (max 0 yearsDiff)
      in clearingPrice b * inflationFactor)"

definition phaseSeries :: "Clock \<Rightarrow> HistoricalBid list \<Rightarrow> PhaseSeries" where
  "phaseSeries now phaseBids =
     (let currentTerm = getCurrentTermNumber now
      in \<lparr>seriesPrices = map (adjustedPrice currentTerm) phaseBids,
          seriesTerms = map (\<lambda>b. real_of_int (parseTermToNumber (termName b))) phaseBids,
          seriesWeights =
            map (\<lambda>b. calculateTimeWeight (parseTermToNumber (termName b)) currentTerm) phaseBids,
          seriesBidsPlaced = map bidsPlaced (filter (\<lambda>b. bidsPlaced b > 0) phaseBids),
          seriesSpotsAvailable =
            map spotsAvailable (filter (\<lambda>b. spotsAvailable b > 0) phaseBids)\<rparr>)"

text \<open>
  The trend strength enters the price only for a rising or falling trend, where it is
  finite (lemma \<open>slopeSignificance_strength_finite\<close> below).
\<close>

fun numValue :: "number \<Rightarrow> real" where
  "numValue (Num x) = x"
| "numValue _ = 0"

definition forecastFromSeries ::
  "PhaseType \<Rightarrow> PhaseSeries \<Rightarrow> ProfessorData option \<Rightarrow> string option \<Rightarrow> string option
     \<Rightarrow> ForecastResult" where
  "forecastFromSeries ph series pd mt cp =
     (let prices = seriesPrices series;
          weights = seriesWeights series;
          stats = weightedStatistics prices weights;
          trendResult = detectTrend prices (seriesTerms series) weights;
          tr = trendOf trendResult;
          trStrength = numValue (strength trendResult);
          basePrice = mean stats;
          trendMultiplier =
            (if tr = Rising then 1 + (0.10 * trStrength)
             else if tr = Falling then 1 - (0.08 * trStrength) else 1.0);
          trendFactors =
            (if tr = Rising
             then [\<lparr>name = ''Rising Trend'', impact = (trendMultiplier - 1) * basePrice,
                    description =
                      Msg ''Prices trending upward (strength: ${(trendStrength * 100).toFixed(0)}%)''
                        [trStrength * 100]\<rparr>]
             else if tr = Falling
             then [\<lparr>name = ''Falling Trend'', impact = (trendMultiplier - 1) * basePrice,
                    description =
                      Msg ''Prices trending downward (strength: ${(trendStrength * 100).toFixed(0)}%)''
                        [trStrength * 100]\<rparr>]
             else []);
          ri = calculateRatingImpact (map_option rating pd);
          ratingMultiplier = multiplier ri;
          ratingFactors =
            (if ratingMultiplier \<noteq> 1.0
             then [\<lparr>name = ''Professor Rating'', impact = (ratingMultiplier - 1) * basePrice,
                    description = ratingDescription ri\<rparr>]
             else []);
          dp = calculateDemandPressure (seriesBidsPlaced series) (seriesSpotsAvailable series) weights;
          demandMultiplier =
            (if length (seriesBidsPlaced series) > 0 then 1 + (pressure dp - 0.5) * 0.20 else 1.0);
          demandFactors =
            (if length (seriesBidsPlaced series) > 0
             then [\<lparr>name = ''Demand Pressure'', impact = (demandMultiplier - 1) * basePrice,
                    description = pressureDescription dp\<rparr>]
             else []);
          timeAdjustment = getTimeSlotAdjustment mt;
          timeFactors =
            (if timeAdjustment \<noteq> 1.0
             then [\<lparr>name = ''Time Slot'', impact = (timeAdjustment - 1) * basePrice,
                    description =
                      (if timeAdjustment < 1 then Msg ''Less popular time slot'' []
                       else Msg ''Popular time slot'' [])\<rparr>]
             else []);
          campusAdjustment = getCampusAdjustment cp;
          campusFactors =
            (if campusAdjustment \<noteq> 1.0
             then [\<lparr>name = ''Campus Location'', impact = (campusAdjustment - 1) * basePrice,
                    description = Msg ''Chicago campus typically has lower demand'' []\<rparr>]
             else []);
          totalMultiplier =
            trendMultiplier * ratingMultiplier * demandMultiplier * timeAdjustment * campusAdjustment;
          expected = of_int (round (basePrice * totalMultiplier));
          vol = (if mean stats > 0 then stdDev stats / mean stats else 0);
          margin = calculateUncertaintyMargin (length prices) vol;
          safe = of_int (round (expected * (1 + margin)));
          aggressive = of_int (round expected);
          minimum = of_int (round (expected * (1 - margin * 0.5)));
          adjustedStdDev = stdDev stats * totalMultiplier;
          probData =
            generateWinProbabilityCurve
              (map (\<lambda>p. p * totalMultiplier / (if mean stats = 0 then 1 else mean stats) * basePrice)
                 prices)
              weights expected adjustedStdDev;
          significanceFactors =
            (if isSignificant trendResult \<and> tr \<noteq> Stable
             then [\<lparr>name = ''Trend Significance'', impact = 0,
                    description =
                      Msg ''Trend is statistically significant (p=${trendResult.pValue.toFixed(3)})''
                        [pValue trendResult]\<rparr>]
             else [])
      in \<lparr>forecastPhaseOf = ph,
          expectedPrice = expected,
          safeBid = safe,
          aggressiveBid = aggressive,
          minimumBid = minimum,
          confidence = determineConfidence (length prices),
          dataPoints = length prices,
          trend = tr,
          trendStrength = strength trendResult,
          trendSignificant = Some (isSignificant trendResult),
          volatility = vol,
          demandPressure = pressure dp,
          uncertaintyMargin = Some margin,
          factors = trendFactors @ ratingFactors @ demandFactors @ timeFactors @ campusFactors
                      @ significanceFactors,
          probabilityData = Some probData\<rparr>)"

definition baseBidsOf :: "HistoricalBid list \<Rightarrow> HistoricalBid list" where
  "baseBidsOf allBids =
     (let phase1Bids = filter (\<lambda>b. phase b = P1) allBids;
          phase2Bids = filter (\<lambda>b. phase b = P2) allBids
      in if length phase1Bids \<ge> length phase2Bids then phase1Bids else phase2Bids)"

definition basePhaseOf :: "HistoricalBid list \<Rightarrow> PhaseType" where
  "basePhaseOf allBids =
     (let phase1Bids = filter (\<lambda>b. phase b = P1) allBids;
          phase2Bids = filter (\<lambda>b. phase b = P2) allBids
      in if length phase1Bids \<ge> length phase2Bids then P1 else P2)"

definition noDataResult :: "PhaseType \<Rightarrow> ForecastResult" where
  "noDataResult targetPhase =
     \<lparr>forecastPhaseOf = targetPhase,
      expectedPrice = 0,
      safeBid = 0,
      aggressiveBid = 0,
      minimumBid = 0,
      confidence = Insufficient,
      dataPoints = 0,
      trend = Unknown,
      trendStrength = Num 0,
      trendSignificant = None,
      volatility = 0,
      demandPressure = 0.5,
      uncertaintyMargin = None,
      factors =
        [\<lparr>name = ''No Data'', impact = 0,
          description =
            Msg ''No historical data available for this course/professor combination'' []\<rparr>],
      probabilityData = None\<rparr>"

text \<open>
  The multiplier, the description and the confidence chosen by the two \<open>switch\<close>
  statements; a target without a \<open>case\<close> keeps the initial values.
\<close>

definition ratioSource :: "string \<Rightarrow> real \<Rightarrow> real \<Rightarrow> message" where
  "ratioSource label conf m =
     (if conf > 0.5 then Msg (label @ '' ratio: ${multiplier.toFixed(2)}x (from historical data)'') [m]
      else Msg (label @ '' ratio: ${multiplier.toFixed(2)}x (estimated)'') [m])"

definition phaseRelationship ::
  "PhaseType \<Rightarrow> PhaseType \<Rightarrow> PhaseMultipliers \<Rightarrow> real \<times> message \<times> Confidence" where
  "phaseRelationship basePhase targetPhase pm =
     (if basePhase = P1 then
        (case targetPhase of
           P1 \<Rightarrow> (1.0, Msg [] [], Low)
         | P2 \<Rightarrow> (P2_VS_P1 pm, ratioSource ''Phase 2/Phase 1'' (P2_confidence pm) (P2_VS_P1 pm),
                  if P2_confidence pm > 0.8 then Medium else Low)
         | P3 \<Rightarrow> (P3_VS_P1 pm, ratioSource ''Phase 3/Phase 1'' (P3_confidence pm) (P3_VS_P1 pm),
                  if P3_confidence pm > 0.8 then Medium else Low)
         | P4 \<Rightarrow> (P4_VS_P1 pm, ratioSource ''PWYB/Phase 1'' (P4_confidence pm) (P4_VS_P1 pm),
                  if P4_confidence pm > 0.8 then Medium else Low)
         | PWYB \<Rightarrow> (P4_VS_P1 pm, ratioSource ''PWYB/Phase 1'' (P4_confidence pm) (P4_VS_P1 pm),
                  if P4_confidence pm > 0.8 then Medium else Low))
      else
        (case targetPhase of
           P1 \<Rightarrow> (1 / P2_VS_P1 pm,
                  Msg ''Phase 1 estimated from Phase 2 (ratio: ${multiplier.toFixed(2)}x)''
                    [1 / P2_VS_P1 pm], Low)
         | P2 \<Rightarrow> (1.0, Msg [] [], Low)
         | P3 \<Rightarrow> (P3_VS_P1 pm / P2_VS_P1 pm,
                  Msg ''Phase 3 estimated via Phase 2->Phase 1 relationship'' [], Low)
         | P4 \<Rightarrow> (P4_VS_P1 pm / P2_VS_P1 pm,
                  Msg ''PWYB estimated via Phase 2->Phase 1 relationship'' [], Low)
         | PWYB \<Rightarrow> (P4_VS_P1 pm / P2_VS_P1 pm,
                  Msg ''PWYB estimated via Phase 2->Phase 1 relationship'' [], Low)))"

definition deriveFromBase ::
  "PhaseType \<Rightarrow> PhaseType \<Rightarrow> HistoricalBid list \<Rightarrow> ForecastResult \<Rightarrow> ForecastResult" where
  "deriveFromBase targetPhase basePhase allBids baseForecast =
     (let phaseMultipliers = calculateDataDrivenPhaseMultipliers allBids;
          (m, descr, conf) = phaseRelationship basePhase targetPhase phaseMultipliers;
          fs = factors baseForecast
                 @ [\<lparr>name = ''Cross-Phase Estimate'',
                      impact = (m - 1) * expectedPrice baseForecast,
                      description = descr\<rparr>];
          expected = of_int (round (expectedPrice baseForecast * m));
          extraUncertainty = 1.15;
          safe = of_int (round (safeBid baseForecast * m * extraUncertainty))
      in \<lparr>forecastPhaseOf = targetPhase,
          expectedPrice = expected,
          safeBid = safe,
          aggressiveBid = of_int (round (aggressiveBid baseForecast * m)),
          minimumBid = of_int (round (minimumBid baseForecast * m)),
          confidence = conf,
          dataPoints = dataPoints baseForecast,
          trend = trend baseForecast,
          trendStrength = trendStrength baseForecast,
          trendSignificant = None,
          volatility = volatility baseForecast,
          demandPressure = demandPressure baseForecast,
          uncertaintyMargin = None,
          factors = fs,
          probabilityData =
            Some (generateWinProbabilityCurve [] [] expected
                    (expected * volatility baseForecast))\<rparr>)"

function
  forecastPhase ::
    "Clock \<Rightarrow> PhaseType \<Rightarrow> HistoricalBid list \<Rightarrow> HistoricalBid list \<Rightarrow> ProfessorData option
       \<Rightarrow> string option \<Rightarrow> string option \<Rightarrow> ForecastResult"
and
  estimateFromOtherPhases ::
    "Clock \<Rightarrow> PhaseType \<Rightarrow> HistoricalBid list \<Rightarrow> ProfessorData option
       \<Rightarrow> string option \<Rightarrow> string option \<Rightarrow> ForecastResult"
where
  "forecastPhase now ph phaseBids allBids pd mt cp =
     (if length (seriesPrices (phaseSeries now phaseBids)) = 0
      then estimateFromOtherPhases now ph allBids pd mt cp
      else forecastFromSeries ph (phaseSeries now phaseBids) pd mt cp)"
| "estimateFromOtherPhases now targetPhase allBids pd mt cp =
     (if length (baseBidsOf allBids) = 0 then noDataResult targetPhase
      else deriveFromBase targetPhase (basePhaseOf allBids) allBids
             (forecastPhase now (basePhaseOf allBids) (baseBidsOf allBids) allBids pd mt cp))"
  by pat_completeness auto
termination
  by (relation "measure (\<lambda>x. case x of
          Inl (now, ph, phaseBids, allBids, pd, mt, cp) \<Rightarrow> (if phaseBids = [] then 2 else 0)
        | Inr _ \<Rightarrow> 1)")
     (auto simp: phaseSeries_def Let_def)

declare forecastPhase.simps [simp del] estimateFromOtherPhases.simps [simp del]

declare curveLoop.simps [simp del] betaCFLoop.simps [simp del] logGamma.simps [simp del]

section \<open>The main forecasting function\<close>

definition generateStrategyNotes ::
  "ForecastResult \<Rightarrow> ForecastResult \<Rightarrow> ForecastResult \<Rightarrow> ForecastResult
     \<Rightarrow> ProfessorData option \<Rightarrow> message list" where
  "generateStrategyNotes p1 p2 p3 p4 pd =
     (if demandPressure p1 > 0.7
      then [Msg ''HIGH DEMAND: This course consistently has more bidders than seats. Consider using safe bid.'' []]
      else [])
     @ (if trend p1 = Rising \<and> numGreater (trendStrength p1) 0.5
        then [Msg ''RISING PRICES: Strong upward trend detected. Historical prices may underestimate future clearing.'' []]
        else [])
     @ (if trend p1 = Falling \<and> numGreater (trendStrength p1) 0.5
        then [Msg ''FALLING PRICES: Downward trend detected. You may be able to bid more aggressively.'' []]
        else [])
     @ (if expectedPrice p2 > expectedPrice p1 * 1.2
        then [Msg ''Phase 2 significantly higher than Phase 1. Strongly recommend bidding in Phase 1.'' []]
        else [])
     @ (if expectedPrice p3 < expectedPrice p1 * 0.8 \<and> confidence p3 \<noteq> Insufficient
        then [Msg ''Phase 3 (combined pool) offers potential savings. Consider waiting if flexible on section.'' []]
        else [])
     @ (if expectedPrice p4 < expectedPrice p1 * 0.6 \<and> confidence p4 \<noteq> Insufficient
        then [Msg ''PWYB phase could save significant points, but seat availability is unpredictable.'' []]
        else [])
     @ (case pd of
          None \<Rightarrow> []
        | Some d \<Rightarrow>
            if rating d \<noteq> 0 \<and> rating d \<ge> 5.5
            then [Msg ''STAR PROFESSOR: ${professorData.rating.toFixed(1)}/6.0 rating. Expect competitive bidding.''
                    [rating d]]
            else [])
     @ (if volatility p1 > 0.4
        then [Msg ''HIGH VOLATILITY: Prices vary significantly term-to-term. Consider padding your bid.'' []]
        else [])
     @ (if confidence p1 = Low \<or> confidence p1 = Insufficient
        then [Msg ''LIMITED DATA: Forecast based on limited history. Use with caution.'' []]
        else [])"

definition generateOverallRecommendation ::
  "ForecastResult \<Rightarrow> ForecastResult \<Rightarrow> ForecastResult \<Rightarrow> ForecastResult \<Rightarrow> message" where
  "generateOverallRecommendation p1 p2 p3 p4 =
     (let phases = [(''Phase 1'', p1), (''Phase 2'', p2), (''Phase 3'', p3), (''PWYB'', p4)];
          viable = filter (\<lambda>p. confidence (snd p) \<noteq> Insufficient \<and> expectedPrice (snd p) > 0) phases
      in if length viable = 0
         then Msg ''Insufficient data for recommendation. Start with the median clearing price from similar courses.'' []
         else
           let cheapest =
                 foldl (\<lambda>mn p. if expectedPrice (snd p) < expectedPrice (snd mn) then p else mn)
                   (hd viable) (tl viable)
           in if demandPressure p1 > 0.7
              then Msg ''High demand course. Recommend Phase 1 with safe bid of ${p1.safeBid} points. Later phases are risky due to seat scarcity.''
                     [safeBid p1]
              else if fst cheapest = ''PWYB'' \<and> confidence p4 \<noteq> Low
              then Msg ''Value opportunity in PWYB at ~${p4.expectedPrice} points, but availability uncertain. Safe option: Phase 1 at ${p1.safeBid} points.''
                     [expectedPrice p4, safeBid p1]
              else if fst cheapest = ''Phase 3'' \<and> confidence p3 \<noteq> Low
              then Msg ''Phase 3 offers best value at ~${p3.expectedPrice} points if section flexibility is OK. For specific section: Phase 1 at ${p1.safeBid} points.''
                     [expectedPrice p3, safeBid p1]
              else Msg ''Recommend Phase 1 with ${p1.safeBid} points for high confidence, or ${p1.aggressiveBid} points if willing to risk Phase 2.''
                     [safeBid p1, aggressiveBid p1])"

definition phaseString :: "PhaseType \<Rightarrow> string" where
  "phaseString ph =
     (case ph of P1 \<Rightarrow> ''1'' | P2 \<Rightarrow> ''2'' | P3 \<Rightarrow> ''3'' | P4 \<Rightarrow> ''4'' | PWYB \<Rightarrow> ''PWYB'')"

definition normalizePhaseBids :: "HistoricalBid list \<Rightarrow> string list \<Rightarrow> HistoricalBid list" where
  "normalizePhaseBids bids phases =
     filter (\<lambda>b. let phaseStr = toLowerCase (phaseString (phase b))
                  in list_ex (\<lambda>p. str_includes phaseStr (toLowerCase p)) phases)
       bids"

definition generateForecast :: "Clock \<Rightarrow> CourseContext \<Rightarrow> CompleteForecast" where
  "generateForecast now context =
     (let bids = historicalBids context;
          pd = professorData context;
          mt = meetingTime context;
          cp = campus context;
          phase1Bids = normalizePhaseBids bids [''1''];
          phase2Bids = normalizePhaseBids bids [''2''];
          phase3Bids = normalizePhaseBids bids [''3''];
          phase4Bids = normalizePhaseBids bids [''4'', ''pwyb'', ''pay''];
          f1 = forecastPhase now P1 phase1Bids bids pd mt cp;
          f2 = forecastPhase now P2 phase2Bids bids pd mt cp;
          f3 = forecastPhase now P3 phase3Bids bids pd mt cp;
          f4 = forecastPhase now P4 phase4Bids bids pd mt cp
      in \<lparr>forecastCourseId = courseId context,
          forecastProfessor = professor context,
          forecasts = \<lparr>phase1 = f1, phase2 = f2, phase3 = f3, phase4 = f4\<rparr>,
          overallRecommendation = generateOverallRecommendation f1 f2 f3 f4,
          strategyNotes = generateStrategyNotes f1 f2 f3 f4 pd\<rparr>)"

section \<open>Win-probability curve lookups\<close>

text \<open>
  The search loop of both lookups: the first index \<open>i\<close> whose adjacent pair
  satisfies the test, scanning \<open>i = 0 .. length - 2\<close>.
\<close>

fun findBracket :: "real \<Rightarrow> CurvePoint list \<Rightarrow> (CurvePoint \<times> CurvePoint) option" where
  "findBracket b (p # q # rest) =
     (if bid p \<le> b \<and> bid q \<ge> b then Some (p, q) else findBracket b (q # rest))"
| "findBracket b _ = None"

definition getWinProbabilityForBid :: "real \<Rightarrow> CurvePoint list option \<Rightarrow> real" where
  "getWinProbabilityForBid b curve =
     (case curve of
        None \<Rightarrow> 50
      | Some pd \<Rightarrow>
          if pd = [] then 50
          else if b \<le> 0 then 0
          else
            let (lower, upper) =
                  (case findBracket b pd of Some lu \<Rightarrow> lu | None \<Rightarrow> (hd pd, last pd))
            in if b \<le> bid lower then probability lower
               else if b \<ge> bid upper then probability upper
               else
                 let ratio = (b - bid lower) / (bid upper - bid lower)
                 in of_int (round (probability lower + ratio * (probability upper - probability lower))))"



section \<open>Vocabulary of the statements\<close>

definition allZeroInsufficient :: "ForecastResult \<Rightarrow> bool" where
  "allZeroInsufficient r \<longleftrightarrow>
     confidence r = Insufficient \<and> expectedPrice r = 0 \<and> safeBid r = 0
     \<and> aggressiveBid r = 0 \<and> minimumBid r = 0"

definition tiersOrdered :: "ForecastResult \<Rightarrow> bool" where
  "tiersOrdered r \<longleftrightarrow> minimumBid r \<le> aggressiveBid r \<and> aggressiveBid r \<le> safeBid r"

text \<open>
  The ratio between phases in the words of the specification, which computes the
  phase-to-phase price ratios from the terms where both phases co-occur, on raw clearing
  prices, takes the median ratio of a pair of phases if at least two terms co-occur, and
  falls back to a configured default otherwise. The terms of a history are taken each
  once, in the order of their first appearance; the price of a phase in a term is the raw
  clearing price of the observation listed last for that term and phase; a term counts as
  co-occurring for a phase if both phase 1 and that phase have a positive price in it.
\<close>

definition termsOf :: "HistoricalBid list \<Rightarrow> string list" where
  "termsOf allBids = rev (remdups (rev (map termName allBids)))"

definition priceIn :: "HistoricalBid list \<Rightarrow> string \<Rightarrow> PhaseType \<Rightarrow> real option" where
  "priceIn allBids t ph =
     (let listed = filter (\<lambda>b. termName b = t \<and> phase b = ph) allBids
      in if listed = [] then None else Some (clearingPrice (last listed)))"

definition coOccur :: "HistoricalBid list \<Rightarrow> PhaseType \<Rightarrow> string \<Rightarrow> bool" where
  "coOccur allBids ph t =
     (case (priceIn allBids t P1, priceIn allBids t ph) of
        (Some p1, Some p) \<Rightarrow> p1 > 0 \<and> p > 0
      | _ \<Rightarrow> False)"

definition coOccurringTerms :: "HistoricalBid list \<Rightarrow> PhaseType \<Rightarrow> string list" where
  "coOccurringTerms allBids ph = filter (coOccur allBids ph) (termsOf allBids)"

definition perTermRatios :: "HistoricalBid list \<Rightarrow> PhaseType \<Rightarrow> real list" where
  "perTermRatios allBids ph =
     map (\<lambda>t. the (priceIn allBids t ph) / the (priceIn allBids t P1))
       (coOccurringTerms allBids ph)"

text \<open>
  The median of a list of numbers: the middle one of the sorted list, the mean of the two
  middle ones for an even length.
\<close>

definition medianOf :: "real list \<Rightarrow> real" where
  "medianOf xs =
     (let s = sort xs; n = length s in (s ! ((n - 1) div 2) + s ! (n div 2)) / 2)"

definition configuredDefault :: "PhaseType \<Rightarrow> real" where
  "configuredDefault ph =
     (case ph of P1 \<Rightarrow> 1 | P2 \<Rightarrow> DEFAULT_P2_VS_P1 | P3 \<Rightarrow> DEFAULT_P3_VS_P1
      | P4 \<Rightarrow> DEFAULT_P4_VS_P1 | PWYB \<Rightarrow> DEFAULT_P4_VS_P1)"

text \<open>
  The ratio of a phase to phase 1 (1 for phase 1 itself; the pay-what-you-bid phase is
  phase 4), and the ratio applied to the forecast of a base phase to obtain that of a
  target phase: the quotient of their ratios to phase 1.
\<close>

definition ratioToPhase1 :: "PhaseType \<Rightarrow> HistoricalBid list \<Rightarrow> real" where
  "ratioToPhase1 ph allBids =
     (let pair = (if ph = PWYB then P4 else ph)
      in if ph = P1 then 1
         else if 2 \<le> length (coOccurringTerms allBids pair)
         then medianOf (perTermRatios allBids pair)
         else configuredDefault ph)"

definition crossPhaseRatio :: "PhaseType \<Rightarrow> PhaseType \<Rightarrow> HistoricalBid list \<Rightarrow> real" where
  "crossPhaseRatio basePhase targetPhase allBids =
     ratioToPhase1 targetPhase allBids / ratioToPhase1 basePhase allBids"

text \<open>
  The price that the map built by \<open>calculateDataDrivenPhaseMultipliers\<close> holds for a
  term and a phase.
\<close>

definition lookupPrice ::
  "(string \<times> (PhaseType \<times> real) list) list \<Rightarrow> string \<Rightarrow> PhaseType \<Rightarrow> real option" where
  "lookupPrice byTerm t ph =
     (case map_of byTerm t of None \<Rightarrow> None | Some phases \<Rightarrow> map_of phases ph)"


text \<open>
  The observations that \<open>generateForecast\<close> passes to \<open>forecastPhase\<close> for a phase, and
  the forecast that it returns for the phase.
\<close>

definition observationsOf :: "PhaseType \<Rightarrow> HistoricalBid list \<Rightarrow> HistoricalBid list" where
  "observationsOf ph bids =
     (case ph of
        P1 \<Rightarrow> normalizePhaseBids bids [''1'']
      | P2 \<Rightarrow> normalizePhaseBids bids [''2'']
      | P3 \<Rightarrow> normalizePhaseBids bids [''3'']
      | P4 \<Rightarrow> normalizePhaseBids bids [''4'', ''pwyb'', ''pay'']
      | PWYB \<Rightarrow> normalizePhaseBids bids [''4'', ''pwyb'', ''pay''])"

definition forecastOf :: "PhaseType \<Rightarrow> CompleteForecast \<Rightarrow> ForecastResult" where
  "forecastOf ph f =
     (case ph of
        P1 \<Rightarrow> phase1 (forecasts f)
      | P2 \<Rightarrow> phase2 (forecasts f)
      | P3 \<Rightarrow> phase3 (forecasts f)
      | P4 \<Rightarrow> phase4 (forecasts f)
      | PWYB \<Rightarrow> phase4 (forecasts f))"

text \<open>
  The demand pressure in the words of the specification: the weighted mean of bids placed
  over seats available, taken over the observations with a positive number of seats, each
  with its own time weight, mapped through the sigmoid centred at 2.0; 0.5 with no such
  observation.
\<close>

definition specDemandPressure :: "Clock \<Rightarrow> HistoricalBid list \<Rightarrow> real" where
  "specDemandPressure now phaseBids =
     (let weightOf = (\<lambda>b. calculateTimeWeight (parseTermToNumber (termName b)) (getCurrentTermNumber now));
          valid = filter (\<lambda>b. spotsAvailable b > 0) phaseBids
      in if valid = [] then 0.5
         else
           let avgRatio = (\<Sum>b \<leftarrow> valid. weightOf b * (bidsPlaced b / spotsAvailable b))
                            / (\<Sum>b \<leftarrow> valid. weightOf b)
           in 1 / (1 + exp (- ((avgRatio - 2.0) / 1.5))))"



text \<open>
  The pieces of \<open>erf\<close> and of \<open>calculateWinProbability\<close> that the monotonicity proof
  names: the polynomial of the Abramowitz and Stegun approximation, its derivative, the
  term subtracted from 1, and the blend of the empirical and the parametric estimate.
\<close>

definition erfPoly :: "real \<Rightarrow> real" where
  "erfPoly t = (((((1.061405429 * t + - 1.453152027) * t) + 1.421413741) * t + - 0.284496736) * t
                  + 0.254829592) * t"

definition erfPolyDeriv :: "real \<Rightarrow> real" where
  "erfPolyDeriv t = 0.254829592 + - 0.568993472 * t + 4.264241223 * t\<^sup>2
                      + - 5.812608108 * t ^ 3 + 5.307027145 * t ^ 4"

definition erfTail :: "real \<Rightarrow> real" where
  "erfTail x = erfPoly (1 / (1 + 0.3275911 * x)) * exp (- x * x)"

definition blend :: "nat \<Rightarrow> real \<Rightarrow> real \<Rightarrow> real" where
  "blend n empirical parametric =
     min 1 (real n / 6) * (min 1 (real n / 10) * empirical + (1 - min 1 (real n / 10)) * 0.5)
       + (1 - min 1 (real n / 6)) * parametric"

text \<open>Example inputs used by the closed theorems below.\<close>

definition winter2024 :: Clock where
  "winter2024 = \<lparr>getFullYear = 2024, getMonth = 0\<rparr>"

definition march2024 :: Clock where
  "march2024 = \<lparr>getFullYear = 2024, getMonth = 2\<rparr>"

definition winter2025 :: Clock where
  "winter2025 = \<lparr>getFullYear = 2025, getMonth = 0\<rparr>"

definition observation :: "string \<Rightarrow> PhaseType \<Rightarrow> real \<Rightarrow> real \<Rightarrow> real \<Rightarrow> HistoricalBid" where
  "observation t ph price spots bids =
     \<lparr>termName = t, phase = ph, clearingPrice = price, spotsAvailable = spots, bidsPlaced = bids\<rparr>"

definition courseWith :: "HistoricalBid list \<Rightarrow> CourseContext" where
  "courseWith bids =
     \<lparr>courseId = ''FINC-430'', courseName = ''Finance I'', professor = ''Smith'',
      historicalBids = bids, professorData = None, meetingTime = None, campus = None\<rparr>"

text \<open>
  A history whose latest observation has no demand data (seats and bids recorded as 0, as
  \<open>convertFromLegacyFormat\<close> creates them) and whose two earlier observations have it.
\<close>

definition demandHistory :: "HistoricalBid list" where
  "demandHistory =
     [observation ''Winter 2024'' P1 100 0 0,
      observation ''Fall 2023'' P1 100 10 30,
      observation ''Summer 2023'' P1 100 10 10]"

text \<open>
  Two histories of a course taught in three sections of one term, with phase-1 prices for
  two of the sections and phase-2 prices for all three, so that phase 2 is the base phase
  and two terms co-occur for the pair of phase 2 and phase 1. In the second history the
  phase-2 price of the third section is negative.
\<close>

definition sectionHistory :: "HistoricalBid list" where
  "sectionHistory =
     [observation ''Winter 2024 day'' P1 100 0 0,
      observation ''Winter 2024 evening'' P1 100 0 0,
      observation ''Winter 2024 day'' P2 120 0 0,
      observation ''Winter 2024 evening'' P2 130 0 0,
      observation ''Winter 2024 weekend'' P2 110 0 0]"

definition negativeHistory :: "HistoricalBid list" where
  "negativeHistory =
     [observation ''Winter 2024 day'' P1 10 0 0,
      observation ''Winter 2024 evening'' P1 10 0 0,
      observation ''Winter 2024 day'' P2 18 0 0,
      observation ''Winter 2024 evening'' P2 18 0 0,
      observation ''Winter 2024 weekend'' P2 (-39) 0 0]"

text \<open>
  The curve generated for ten observations of 8 points with equal weights (a plateau at 0
  below the price and at 100 from it on), and a curve that rises at every step.
\<close>

definition plateauCurve :: "CurvePoint list" where
  "plateauCurve =
     [\<lparr>bid = 4, probability = 0\<rparr>, \<lparr>bid = 5, probability = 0\<rparr>,
      \<lparr>bid = 6, probability = 0\<rparr>, \<lparr>bid = 7, probability = 0\<rparr>,
      \<lparr>bid = 8, probability = 100\<rparr>, \<lparr>bid = 9, probability = 100\<rparr>,
      \<lparr>bid = 10, probability = 100\<rparr>, \<lparr>bid = 11, probability = 100\<rparr>,
      \<lparr>bid = 12, probability = 100\<rparr>]"


section \<open>Basic facts\<close>

lemmas CONFIG_defs =
  TIME_DECAY_FACTOR_def INFLATION_RATE_def MIN_DATA_HIGH_CONFIDENCE_def
  MIN_DATA_MEDIUM_CONFIDENCE_def MIN_DATA_LOW_CONFIDENCE_def RATING_STAR_def
  RATING_ABOVE_AVERAGE_def RATING_AVERAGE_def RATING_IMPACT_SCALE_def DEMAND_VERY_HIGH_def
  DEMAND_HIGH_def DEMAND_MODERATE_def DEFAULT_P2_VS_P1_def DEFAULT_P3_VS_P1_def
  DEFAULT_P4_VS_P1_def BASE_MARGIN_def SCARCITY_PENALTY_def MIN_MARGIN_def MAX_MARGIN_def
  TREND_MIN_POINTS_def CAMPUS_CHICAGO_def CAMPUS_EVANSTON_def SLOT_MORNING_EARLY_def
  SLOT_MORNING_def SLOT_AFTERNOON_def SLOT_EVENING_def

lemmas parse_defs =
  parseTermToNumber_def matchTermAt_def toLowerCase_def toLowerChar_def isSpace_def isDigit_def
  parseDigits_def seasonOrder_def


lemma parse_winter2024: "parseTermToNumber ''Winter 2024'' = 20240"
  by (simp add: parse_defs)

lemma forecastPhase_nonempty:
  "phaseBids \<noteq> [] \<Longrightarrow>
   forecastPhase now ph phaseBids allBids pd mt cp
     = forecastFromSeries ph (phaseSeries now phaseBids) pd mt cp"
  by (simp add: forecastPhase.simps phaseSeries_def Let_def)

lemma forecastPhase_empty:
  "forecastPhase now ph [] allBids pd mt cp =
     (if baseBidsOf allBids = [] then noDataResult ph
      else deriveFromBase ph (basePhaseOf allBids) allBids
             (forecastFromSeries (basePhaseOf allBids) (phaseSeries now (baseBidsOf allBids))
                pd mt cp))"
  by (simp add: forecastPhase.simps [of now ph "[]"] estimateFromOtherPhases.simps
        forecastPhase_nonempty phaseSeries_def)

lemma estimateFromOtherPhases_eq:
  "estimateFromOtherPhases now ph allBids pd mt cp = forecastPhase now ph [] allBids pd mt cp"
  by (simp add: forecastPhase.simps [of now ph "[]"] phaseSeries_def)

lemma calculateTimeWeight_pos: "0 < calculateTimeWeight t c"
  by (simp add: calculateTimeWeight_def Let_def)

lemma weightedStatistics_single:
  "w \<noteq> 0 \<Longrightarrow> mean (weightedStatistics [a] [w]) = a \<and> stdDev (weightedStatistics [a] [w]) = 0"
  by (simp add: weightedStatistics_def normalizedWeights_def Let_def)

text \<open>
  A phase with a single observation, no demand data, no rating, no meeting time and no
  campus: every multiplier is 1 and the expected price is the inflation-adjusted price,
  rounded.
\<close>

lemma single_observation_expected:
  assumes "bidsPlaced b \<le> 0"
  shows "expectedPrice (forecastFromSeries ph (phaseSeries now [b]) None None None)
           = of_int (round (adjustedPrice (getCurrentTermNumber now) b))"
proof -
  have w: "calculateTimeWeight (parseTermToNumber (termName b)) (getCurrentTermNumber now) \<noteq> 0"
    using calculateTimeWeight_pos [of "parseTermToNumber (termName b)" "getCurrentTermNumber now"]
    by simp
  show ?thesis
    using assms weightedStatistics_single [OF w]
    by (simp add: forecastFromSeries_def phaseSeries_def Let_def detectTrend_def
        TREND_MIN_POINTS_def calculateRatingImpact_def calculateDemandPressure_def
        getTimeSlotAdjustment_def getCampusAdjustment_def)
qed

lemma single_observation_bids:
  assumes "bidsPlaced b \<le> 0"
  shows "safeBid (forecastFromSeries ph (phaseSeries now [b]) None None None)
           = of_int (round (of_int (round (adjustedPrice (getCurrentTermNumber now) b)) * (1.5 :: real)))
       \<and> minimumBid (forecastFromSeries ph (phaseSeries now [b]) None None None)
           = of_int (round (of_int (round (adjustedPrice (getCurrentTermNumber now) b)) * (0.75 :: real)))"
proof -
  have w: "calculateTimeWeight (parseTermToNumber (termName b)) (getCurrentTermNumber now) \<noteq> 0"
    using calculateTimeWeight_pos [of "parseTermToNumber (termName b)" "getCurrentTermNumber now"]
    by simp
  have m: "calculateUncertaintyMargin (Suc 0) 0 = 0.5"
    by (simp add: calculateUncertaintyMargin_def Let_def CONFIG_defs)
  show ?thesis
    using assms weightedStatistics_single [OF w]
    by (simp add: forecastFromSeries_def phaseSeries_def Let_def detectTrend_def
        TREND_MIN_POINTS_def calculateRatingImpact_def calculateDemandPressure_def
        getTimeSlotAdjustment_def getCampusAdjustment_def m)
qed

lemma single_observation_confidence:
  "confidence (forecastFromSeries ph (phaseSeries now [b]) pd mt cp) = Low"
  by (simp add: forecastFromSeries_def phaseSeries_def Let_def determineConfidence_def CONFIG_defs)

lemma normalizePhaseBids_P1: "normalizePhaseBids bids [''1''] = filter (\<lambda>b. phase b = P1) bids"
  unfolding normalizePhaseBids_def
  by (rule filter_cong [OF refl])
     (simp add: phaseString_def toLowerCase_def toLowerChar_def split: PhaseType.split)

lemma normalizePhaseBids_P2: "normalizePhaseBids bids [''2''] = filter (\<lambda>b. phase b = P2) bids"
  unfolding normalizePhaseBids_def
  by (rule filter_cong [OF refl])
     (simp add: phaseString_def toLowerCase_def toLowerChar_def split: PhaseType.split)

lemma normalizePhaseBids_P3: "normalizePhaseBids bids [''3''] = filter (\<lambda>b. phase b = P3) bids"
  unfolding normalizePhaseBids_def
  by (rule filter_cong [OF refl])
     (simp add: phaseString_def toLowerCase_def toLowerChar_def split: PhaseType.split)

lemma normalizePhaseBids_P4:
  "normalizePhaseBids bids [''4'', ''pwyb'', ''pay'']
     = filter (\<lambda>b. phase b = P4 \<or> phase b = PWYB) bids"
  unfolding normalizePhaseBids_def
  by (rule filter_cong [OF refl])
     (simp add: phaseString_def toLowerCase_def toLowerChar_def split: PhaseType.split)

lemma phase1_of_generateForecast:
  "phase1 (forecasts (generateForecast now context))
     = forecastPhase now P1 (filter (\<lambda>b. phase b = P1) (historicalBids context))
         (historicalBids context) (professorData context) (meetingTime context) (campus context)"
  by (simp add: generateForecast_def Let_def normalizePhaseBids_P1)

section \<open>Empty history\<close>

text \<open>
  C2. For every course context whose list of observations is empty, \<open>generateForecast\<close>
  returns (the embedding has no error branch, as the source has no \<open>throw\<close>) four
  forecast results, each with confidence \<open>insufficient\<close> and with expected price, safe
  bid, aggressive bid and minimum bid all 0.
\<close>

theorem empty_context_insufficient:
  assumes "historicalBids context = []"
  shows "allZeroInsufficient (phase1 (forecasts (generateForecast now context)))
       \<and> allZeroInsufficient (phase2 (forecasts (generateForecast now context)))
       \<and> allZeroInsufficient (phase3 (forecasts (generateForecast now context)))
       \<and> allZeroInsufficient (phase4 (forecasts (generateForecast now context)))"
  using assms
  by (simp add: generateForecast_def normalizePhaseBids_def forecastPhase_empty baseBidsOf_def
        noDataResult_def allZeroInsufficient_def Let_def)

theorem empty_context_insufficient_witness:
  "historicalBids (courseWith []) = []
   \<and> allZeroInsufficient (phase1 (forecasts (generateForecast winter2024 (courseWith []))))
   \<and> allZeroInsufficient (phase2 (forecasts (generateForecast winter2024 (courseWith []))))
   \<and> allZeroInsufficient (phase3 (forecasts (generateForecast winter2024 (courseWith []))))
   \<and> allZeroInsufficient (phase4 (forecasts (generateForecast winter2024 (courseWith []))))"
proof -
  have h: "historicalBids (courseWith []) = []"
    by (simp add: courseWith_def)
  show ?thesis
    using h empty_context_insufficient [OF h, of winter2024] by simp
qed

section \<open>Ratios between phases\<close>


text \<open>
  The ratios that \<open>calculateDataDrivenPhaseMultipliers\<close> collects in its map of maps are
  the per-term ratios of the specification, and its median is the median.
\<close>

lemma mapSet_map_of: "map_of (mapSet k v m) = (map_of m)(k \<mapsto> v)"
  by (induction m) (auto simp: fun_eq_iff)

lemma mapSet_keys:
  "map fst (mapSet k v m) = (if k \<in> set (map fst m) then map fst m else map fst m @ [k])"
  by (induction m) (force+)

lemma bidsByTerm_snoc:
  "bidsByTerm (bs @ [b]) =
     mapSet (termName b)
       (mapSet (phase b) (clearingPrice b)
          (case map_of (bidsByTerm bs) (termName b) of None \<Rightarrow> [] | Some ps \<Rightarrow> ps))
       (bidsByTerm bs)"
  by (simp add: bidsByTerm_def)

lemma termsOf_snoc:
  "termsOf (bs @ [b])
     = (if termName b \<in> set (termsOf bs) then termsOf bs else termsOf bs @ [termName b])"
  by (simp add: termsOf_def)

lemma bidsByTerm_keys: "map fst (bidsByTerm bs) = termsOf bs"
proof (induction bs rule: rev_induct)
  case Nil
  then show ?case by (simp add: bidsByTerm_def termsOf_def)
next
  case (snoc b bs)
  then show ?case
    by (simp add: bidsByTerm_snoc mapSet_keys termsOf_snoc del: set_map)
qed

lemma priceIn_snoc:
  "priceIn (bs @ [b]) t ph =
     (if termName b = t \<and> phase b = ph then Some (clearingPrice b) else priceIn bs t ph)"
  by (simp add: priceIn_def Let_def)

lemma bidsByTerm_price: "lookupPrice (bidsByTerm bs) t ph = priceIn bs t ph"
proof (induction bs rule: rev_induct)
  case Nil
  then show ?case by (simp add: bidsByTerm_def lookupPrice_def priceIn_def)
next
  case (snoc b bs)
  then show ?case
    by (auto simp: bidsByTerm_snoc mapSet_map_of priceIn_snoc lookupPrice_def
          split: option.splits)
qed

lemma phaseRatios_lookup:
  assumes "distinct (map fst byTerm)"
  shows "phaseRatios ph byTerm =
     concat (map (\<lambda>t. case lookupPrice byTerm t P1 of
                      None \<Rightarrow> []
                    | Some p1 \<Rightarrow>
                        if p1 > 0
                        then (case lookupPrice byTerm t ph of
                                None \<Rightarrow> []
                              | Some p \<Rightarrow> if p > 0 then [p / p1] else [])
                        else [])
                 (map fst byTerm))"
proof -
  have "map_of byTerm t = Some phases" if "(t, phases) \<in> set byTerm" for t phases
    using assms that by simp
  then show ?thesis
    unfolding phaseRatios_def map_map
    by (intro arg_cong [where f = concat] map_cong refl)
       (auto simp: lookupPrice_def split: option.splits)
qed

lemma map_filter_concat:
  "map f (filter P xs) = concat (map (\<lambda>x. if P x then [f x] else []) xs)"
  by (induction xs) simp_all

lemma distinct_termsOf: "distinct (termsOf bs)"
  by (simp add: termsOf_def)

lemma phaseRatios_perTerm: "phaseRatios ph (bidsByTerm allBids) = perTermRatios allBids ph"
proof -
  have d: "distinct (map fst (bidsByTerm allBids))"
    by (simp add: bidsByTerm_keys distinct_termsOf)
  show ?thesis
    unfolding phaseRatios_lookup [OF d] perTermRatios_def coOccurringTerms_def map_filter_concat
      bidsByTerm_keys bidsByTerm_price
    by (intro arg_cong [where f = concat] map_cong refl)
       (auto simp: coOccur_def split: option.splits)
qed

lemma length_perTermRatios:
  "length (perTermRatios allBids ph) = length (coOccurringTerms allBids ph)"
  by (simp add: perTermRatios_def)

lemma medianOf_medianRatio:
  assumes "xs \<noteq> []"
  shows "medianRatio xs = medianOf xs"
proof -
  have n: "0 < length xs" using assms by simp
  show ?thesis
  proof (cases "length xs mod 2 \<noteq> 0")
    case True
    then have "(length xs - 1) div 2 = length xs div 2" by presburger
    then show ?thesis using True n by (simp add: medianRatio_def medianOf_def Let_def)
  next
    case False
    then have "(length xs - 1) div 2 = length xs div 2 - 1" using n by presburger
    then show ?thesis using False n by (simp add: medianRatio_def medianOf_def Let_def)
  qed
qed

lemma multiplier_ratioToPhase1:
  assumes "ph \<in> {P2, P3, P4}"
  shows "(if 2 \<le> length (phaseRatios ph (bidsByTerm allBids))
          then medianRatio (phaseRatios ph (bidsByTerm allBids)) else configuredDefault ph)
         = ratioToPhase1 ph allBids"
proof (cases "2 \<le> length (coOccurringTerms allBids ph)")
  case True
  then have "perTermRatios allBids ph \<noteq> []"
    using length_perTermRatios [of allBids ph] by auto
  then show ?thesis
    using assms True
    by (auto simp: phaseRatios_perTerm length_perTermRatios medianOf_medianRatio
          ratioToPhase1_def Let_def)
next
  case False
  then show ?thesis
    using assms
    by (auto simp: phaseRatios_perTerm length_perTermRatios ratioToPhase1_def Let_def)
qed

lemma multipliers_spec:
  "P2_VS_P1 (calculateDataDrivenPhaseMultipliers allBids) = ratioToPhase1 P2 allBids"
  "P3_VS_P1 (calculateDataDrivenPhaseMultipliers allBids) = ratioToPhase1 P3 allBids"
  "P4_VS_P1 (calculateDataDrivenPhaseMultipliers allBids) = ratioToPhase1 P4 allBids"
  using multiplier_ratioToPhase1 [of P2 allBids] multiplier_ratioToPhase1 [of P3 allBids]
    multiplier_ratioToPhase1 [of P4 allBids]
  by (auto simp: calculateDataDrivenPhaseMultipliers_def Let_def configuredDefault_def
        split: if_splits)

lemma ratioToPhase1_PWYB: "ratioToPhase1 PWYB allBids = ratioToPhase1 P4 allBids"
  by (simp add: ratioToPhase1_def Let_def configuredDefault_def)

lemma ratioToPhase1_P1: "ratioToPhase1 P1 allBids = 1"
  by (simp add: ratioToPhase1_def Let_def)

lemma phaseRelationship_ratio:
  assumes "targetPhase \<noteq> basePhase" and "basePhase = P1 \<or> basePhase = P2"
  shows "fst (phaseRelationship basePhase targetPhase (calculateDataDrivenPhaseMultipliers allBids))
           = crossPhaseRatio basePhase targetPhase allBids"
  using assms
  by (cases targetPhase)
     (auto simp: phaseRelationship_def crossPhaseRatio_def multipliers_spec ratioToPhase1_PWYB
        ratioToPhase1_P1)


lemma deriveFromBase_expected:
  "expectedPrice (deriveFromBase targetPhase basePhase allBids base)
     = of_int (round (expectedPrice base
         * fst (phaseRelationship basePhase targetPhase (calculateDataDrivenPhaseMultipliers allBids))))"
  by (simp add: deriveFromBase_def Let_def split: prod.split)




lemma deriveFromBase_bids:
  "safeBid (deriveFromBase targetPhase basePhase allBids base)
     = of_int (round (safeBid base
         * fst (phaseRelationship basePhase targetPhase (calculateDataDrivenPhaseMultipliers allBids))
         * 1.15))"
  "aggressiveBid (deriveFromBase targetPhase basePhase allBids base)
     = of_int (round (aggressiveBid base
         * fst (phaseRelationship basePhase targetPhase (calculateDataDrivenPhaseMultipliers allBids))))"
  "minimumBid (deriveFromBase targetPhase basePhase allBids base)
     = of_int (round (minimumBid base
         * fst (phaseRelationship basePhase targetPhase (calculateDataDrivenPhaseMultipliers allBids))))"
  by (simp_all add: deriveFromBase_def Let_def split: prod.split)

lemma phase2_of_generateForecast:
  "phase2 (forecasts (generateForecast now context))
     = forecastPhase now P2 (filter (\<lambda>b. phase b = P2) (historicalBids context))
         (historicalBids context) (professorData context) (meetingTime context) (campus context)"
  by (simp add: generateForecast_def Let_def normalizePhaseBids_P2)

lemma phase3_of_generateForecast:
  "phase3 (forecasts (generateForecast now context))
     = forecastPhase now P3 (filter (\<lambda>b. phase b = P3) (historicalBids context))
         (historicalBids context) (professorData context) (meetingTime context) (campus context)"
  by (simp add: generateForecast_def Let_def normalizePhaseBids_P3)

text \<open>
  A phase without demand data, rating, meeting time and campus, whose trend is not rising
  or falling: every multiplier is 1 and the expected price is the weighted mean, rounded.
\<close>

lemma forecastFromSeries_plain:
  assumes "seriesBidsPlaced series = []"
    and "trendOf (detectTrend (seriesPrices series) (seriesTerms series) (seriesWeights series))
           = Stable"
  shows "expectedPrice (forecastFromSeries ph series None None None)
           = of_int (round (mean (weightedStatistics (seriesPrices series) (seriesWeights series))))"
  using assms
  by (simp add: forecastFromSeries_def Let_def calculateRatingImpact_def
        calculateDemandPressure_def getTimeSlotAdjustment_def getCampusAdjustment_def)

lemma forecastFromSeries_tiers_eq:
  "safeBid (forecastFromSeries ph series pd mt cp)
     = of_int (round (expectedPrice (forecastFromSeries ph series pd mt cp)
         * (1 + calculateUncertaintyMargin (length (seriesPrices series))
                  (volatility (forecastFromSeries ph series pd mt cp)))))"
  "aggressiveBid (forecastFromSeries ph series pd mt cp)
     = of_int (round (expectedPrice (forecastFromSeries ph series pd mt cp)))"
  "minimumBid (forecastFromSeries ph series pd mt cp)
     = of_int (round (expectedPrice (forecastFromSeries ph series pd mt cp)
         * (1 - calculateUncertaintyMargin (length (seriesPrices series))
                  (volatility (forecastFromSeries ph series pd mt cp)) * 0.5)))"
  by (simp_all add: forecastFromSeries_def Let_def)

lemma forecastFromSeries_volatility:
  "volatility (forecastFromSeries ph series pd mt cp)
     = (if mean (weightedStatistics (seriesPrices series) (seriesWeights series)) > 0
        then stdDev (weightedStatistics (seriesPrices series) (seriesWeights series))
               / mean (weightedStatistics (seriesPrices series) (seriesWeights series))
        else 0)"
  by (simp add: forecastFromSeries_def Let_def)

text \<open>
  Three observations of one term number: the normalised terms are all 0, the denominator
  of the slope is 0, and \<open>detectTrend\<close> returns at its test for a degenerate denominator.
\<close>

lemma detectTrend_one_term:
  "detectTrend [a, b, c] [t, t, t] [1, 1, 1]
     = \<lparr>trendOf = Stable, strength = Num 0, pValue = 1, isSignificant = False\<rparr>"
  by (simp add: detectTrend_def TREND_MIN_POINTS_def minOf_def maxOf_def Let_def)

lemma parse_sections:
  "parseTermToNumber ''Winter 2024 day'' = 20240"
  "parseTermToNumber ''Winter 2024 evening'' = 20240"
  "parseTermToNumber ''Winter 2024 weekend'' = 20240"
  by (simp_all add: parse_defs)

lemma section_series:
  "phaseSeries winter2024
     [observation ''Winter 2024 day'' P2 a 0 0, observation ''Winter 2024 evening'' P2 b 0 0,
      observation ''Winter 2024 weekend'' P2 c 0 0]
   = \<lparr>seriesPrices = [a, b, c], seriesTerms = [20240, 20240, 20240],
      seriesWeights = [1, 1, 1], seriesBidsPlaced = [], seriesSpotsAvailable = []\<rparr>"
  by (simp add: phaseSeries_def observation_def adjustedPrice_def calculateTimeWeight_def
        parse_sections winter2024_def getCurrentTermNumber_def INFLATION_RATE_def Let_def)

lemma section_mean: "mean (weightedStatistics [a, b, c] [1, 1, 1]) = (a + b + c) / 3"
  by (simp add: weightedStatistics_def normalizedWeights_def Let_def field_simps)

lemma section_expected:
  "expectedPrice (forecastFromSeries ph
     (phaseSeries winter2024
        [observation ''Winter 2024 day'' P2 a 0 0, observation ''Winter 2024 evening'' P2 b 0 0,
         observation ''Winter 2024 weekend'' P2 c 0 0]) None None None)
   = of_int (round ((a + b + c) / 3))"
  by (simp add: forecastFromSeries_plain section_series detectTrend_one_term section_mean)


lemma base_of_negativeHistory:
  "baseBidsOf negativeHistory
     = [observation ''Winter 2024 day'' P2 18 0 0, observation ''Winter 2024 evening'' P2 18 0 0,
        observation ''Winter 2024 weekend'' P2 (- 39) 0 0]"
  "basePhaseOf negativeHistory = P2"
  "filter (\<lambda>b. phase b = P2) negativeHistory = baseBidsOf negativeHistory"
  "filter (\<lambda>b. phase b = P3) negativeHistory = []"
  by (simp_all add: baseBidsOf_def basePhaseOf_def negativeHistory_def observation_def)

lemma terms_of_sections:
  "termsOf sectionHistory = [''Winter 2024 day'', ''Winter 2024 evening'', ''Winter 2024 weekend'']"
  "termsOf negativeHistory = [''Winter 2024 day'', ''Winter 2024 evening'', ''Winter 2024 weekend'']"
  by (simp_all add: termsOf_def sectionHistory_def negativeHistory_def observation_def)

lemma ratios_of_sectionHistory:
  "coOccurringTerms sectionHistory P2 = [''Winter 2024 day'', ''Winter 2024 evening'']"
  "perTermRatios sectionHistory P2 = [6 / 5, 13 / 10]"
  "coOccurringTerms sectionHistory P3 = []"
  unfolding perTermRatios_def coOccurringTerms_def terms_of_sections
  by (simp_all add: coOccur_def priceIn_def sectionHistory_def observation_def Let_def)

lemma ratios_of_negativeHistory:
  "coOccurringTerms negativeHistory P2 = [''Winter 2024 day'', ''Winter 2024 evening'']"
  "perTermRatios negativeHistory P2 = [9 / 5, 9 / 5]"
  "coOccurringTerms negativeHistory P3 = []"
  unfolding perTermRatios_def coOccurringTerms_def terms_of_sections
  by (simp_all add: coOccur_def priceIn_def negativeHistory_def observation_def Let_def)

lemma medianOf_pair: "medianOf [x, y] = (x + y) / 2"
  by (cases "x \<le> y") (simp_all add: medianOf_def Let_def)

lemma crossPhaseRatio_sections:
  "crossPhaseRatio P2 P3 sectionHistory = 17 / 25"
  "crossPhaseRatio P2 P3 negativeHistory = 17 / 36"
  by (simp_all add: crossPhaseRatio_def ratioToPhase1_def ratios_of_sectionHistory
        ratios_of_negativeHistory medianOf_pair configuredDefault_def DEFAULT_P3_VS_P1_def
        Let_def)

section \<open>Order of the bid tiers\<close>

lemma calculateUncertaintyMargin_range:
  "MIN_MARGIN \<le> calculateUncertaintyMargin n vol \<and> calculateUncertaintyMargin n vol \<le> MAX_MARGIN"
  by (simp add: calculateUncertaintyMargin_def Let_def MIN_MARGIN_def MAX_MARGIN_def max_def min_def)

lemma calculateUncertaintyMargin_nonneg: "0 \<le> calculateUncertaintyMargin n vol"
  using calculateUncertaintyMargin_range [of n vol] by (simp add: MIN_MARGIN_def)

lemma tiers_of_expected:
  fixes e m :: real
  assumes "0 \<le> e" and "0 \<le> m"
  shows "round (e * (1 - m * 0.5)) \<le> round e" and "round e \<le> round (e * (1 + m))"
proof -
  have "e * (1 - m * 0.5) \<le> e * 1"
    using assms by (intro mult_left_mono) simp_all
  then show "round (e * (1 - m * 0.5)) \<le> round e"
    using round_mono [of "e * (1 - m * 0.5)" e] by simp
  have "e * 1 \<le> e * (1 + m)"
    using assms by (intro mult_left_mono) simp_all
  then show "round e \<le> round (e * (1 + m))"
    using round_mono [of e "e * (1 + m)"] by simp
qed

lemma forecastFromSeries_bids:
  "\<exists>m. 0 \<le> m
     \<and> safeBid (forecastFromSeries ph series pd mt cp)
         = of_int (round (expectedPrice (forecastFromSeries ph series pd mt cp) * (1 + m)))
     \<and> aggressiveBid (forecastFromSeries ph series pd mt cp)
         = of_int (round (expectedPrice (forecastFromSeries ph series pd mt cp)))
     \<and> minimumBid (forecastFromSeries ph series pd mt cp)
         = of_int (round (expectedPrice (forecastFromSeries ph series pd mt cp) * (1 - m * 0.5)))"
  by (rule exI [of _ "the (uncertaintyMargin (forecastFromSeries ph series pd mt cp))"])
     (simp add: forecastFromSeries_def Let_def calculateUncertaintyMargin_nonneg)

lemma forecastFromSeries_tiers:
  assumes "0 \<le> expectedPrice (forecastFromSeries ph series pd mt cp)"
  shows "tiersOrdered (forecastFromSeries ph series pd mt cp)"
    and "0 \<le> aggressiveBid (forecastFromSeries ph series pd mt cp)"
proof -
  let ?r = "forecastFromSeries ph series pd mt cp"
  obtain m where m: "0 \<le> m"
    and s: "safeBid ?r = of_int (round (expectedPrice ?r * (1 + m)))"
    and a: "aggressiveBid ?r = of_int (round (expectedPrice ?r))"
    and l: "minimumBid ?r = of_int (round (expectedPrice ?r * (1 - m * 0.5)))"
    using forecastFromSeries_bids [of ph series pd mt cp] by blast
  show "tiersOrdered ?r"
    using tiers_of_expected [OF assms m] by (simp add: tiersOrdered_def s a l)
  show "0 \<le> aggressiveBid ?r"
    using assms round_mono [of 0 "expectedPrice ?r"] by (simp add: a)
qed

lemma scale_up:
  fixes x y :: real
  shows "0 \<le> y \<Longrightarrow> x \<le> y \<Longrightarrow> x \<le> y * 1.15"
  by simp

lemma phaseRatios_Cons:
  "phaseRatios ph ((t, phases) # byTerm) =
     (case map_of phases P1 of
        None \<Rightarrow> []
      | Some p1 \<Rightarrow>
          if p1 > 0
          then (case map_of phases ph of
                  None \<Rightarrow> []
                | Some p \<Rightarrow> if p > 0 then [p / p1] else [])
          else []) @ phaseRatios ph byTerm"
  by (simp add: phaseRatios_def)

lemma phaseRatios_Nil: "phaseRatios ph [] = []"
  by (simp add: phaseRatios_def)

lemma phaseRatios_pos: "r \<in> set (phaseRatios ph byTerm) \<Longrightarrow> 0 < r"
proof (induction byTerm)
  case Nil
  then show ?case by (simp add: phaseRatios_Nil)
next
  case (Cons tp byTerm)
  obtain t phases where tp: "tp = (t, phases)" by (cases tp)
  have mem: "r \<in> set (phaseRatios ph ((t, phases) # byTerm))"
    using Cons.prems by (simp add: tp)
  show ?case
  proof (cases "r \<in> set (phaseRatios ph byTerm)")
    case True
    then show ?thesis by (rule Cons.IH)
  next
    case False
    show ?thesis
    proof (cases "map_of phases P1")
      case None
      with mem False show ?thesis by (simp add: phaseRatios_Cons)
    next
      case p1: (Some p1)
      show ?thesis
      proof (cases "map_of phases ph")
        case None
        with mem False p1 show ?thesis
          by (cases "0 < p1") (simp_all add: phaseRatios_Cons)
      next
        case (Some p)
        with mem False p1 show ?thesis
          by (cases "0 < p1"; cases "0 < p") (simp_all add: phaseRatios_Cons)
      qed
    qed
  qed
qed

lemma medianRatio_pos:
  assumes "\<forall>r \<in> set ratios. 0 < r" and "ratios \<noteq> []"
  shows "0 < medianRatio ratios"
proof -
  let ?s = "sort ratios"
  have len: "length ?s = length ratios" by simp
  have pos: "\<And>i. i < length ratios \<Longrightarrow> 0 < ?s ! i"
  proof -
    fix i assume "i < length ratios"
    then have "?s ! i \<in> set ?s" by (simp del: set_sort)
    then show "0 < ?s ! i" using assms(1) by simp
  qed
  have n: "0 < length ratios" using assms(2) by simp
  show ?thesis
  proof (cases "length ratios mod 2 \<noteq> 0")
    case True
    then show ?thesis
      using pos [of "length ratios div 2"] n by (simp add: medianRatio_def Let_def)
  next
    case False
    then have "2 \<le> length ratios" using n by presburger
    then have "0 < ?s ! (length ratios div 2 - 1)" "0 < ?s ! (length ratios div 2)"
      by (auto intro!: pos)
    then show ?thesis
      using False n by (simp add: medianRatio_def Let_def)
  qed
qed

lemma phaseMultipliers_pos:
  "0 < P2_VS_P1 (calculateDataDrivenPhaseMultipliers allBids)"
  "0 < P3_VS_P1 (calculateDataDrivenPhaseMultipliers allBids)"
  "0 < P4_VS_P1 (calculateDataDrivenPhaseMultipliers allBids)"
proof -
  have med: "0 < medianRatio (phaseRatios ph (bidsByTerm allBids))"
    if "2 \<le> length (phaseRatios ph (bidsByTerm allBids))" for ph
  proof (rule medianRatio_pos)
    show "\<forall>r \<in> set (phaseRatios ph (bidsByTerm allBids)). 0 < r"
      using phaseRatios_pos by blast
    show "phaseRatios ph (bidsByTerm allBids) \<noteq> []"
      using that by auto
  qed
  show "0 < P2_VS_P1 (calculateDataDrivenPhaseMultipliers allBids)"
    using med [of P2] by (simp add: calculateDataDrivenPhaseMultipliers_def Let_def CONFIG_defs)
  show "0 < P3_VS_P1 (calculateDataDrivenPhaseMultipliers allBids)"
    using med [of P3] by (simp add: calculateDataDrivenPhaseMultipliers_def Let_def CONFIG_defs)
  show "0 < P4_VS_P1 (calculateDataDrivenPhaseMultipliers allBids)"
    using med [of P4] by (simp add: calculateDataDrivenPhaseMultipliers_def Let_def CONFIG_defs)
qed

lemma phaseRelationship_pos:
  "0 < fst (phaseRelationship basePhase targetPhase (calculateDataDrivenPhaseMultipliers allBids))"
  using phaseMultipliers_pos [of allBids]
  by (simp add: phaseRelationship_def split: PhaseType.split)

lemma deriveFromBase_tiers:
  assumes "tiersOrdered base" and "0 \<le> aggressiveBid base"
  shows "tiersOrdered (deriveFromBase targetPhase basePhase allBids base)"
proof -
  obtain m d c where rel:
    "phaseRelationship basePhase targetPhase (calculateDataDrivenPhaseMultipliers allBids) = (m, d, c)"
    by (metis prod_cases3)
  have m: "0 < m" using phaseRelationship_pos [of basePhase targetPhase allBids] rel by simp
  have "minimumBid base * m \<le> aggressiveBid base * m"
    using assms(1) m by (simp add: tiersOrdered_def)
  then have lo: "round (minimumBid base * m) \<le> round (aggressiveBid base * m)"
    by (rule round_mono)
  have "0 \<le> safeBid base" using assms by (simp add: tiersOrdered_def)
  then have "0 \<le> safeBid base * m" using m by simp
  moreover have "aggressiveBid base * m \<le> safeBid base * m"
    using assms(1) m by (simp add: tiersOrdered_def)
  ultimately have "aggressiveBid base * m \<le> safeBid base * m * 1.15"
    by (rule scale_up)
  then have hi: "round (aggressiveBid base * m) \<le> round (safeBid base * m * 1.15)"
    by (rule round_mono)
  show ?thesis
    using lo hi by (simp add: deriveFromBase_def Let_def rel tiersOrdered_def)
qed

lemma derived_positive_base_positive:
  assumes "0 < expectedPrice (deriveFromBase targetPhase basePhase allBids base)"
  shows "0 < expectedPrice base"
proof (rule ccontr)
  assume "\<not> 0 < expectedPrice base"
  then have "expectedPrice base
               * fst (phaseRelationship basePhase targetPhase
                        (calculateDataDrivenPhaseMultipliers allBids)) \<le> 0"
    using phaseRelationship_pos [of basePhase targetPhase allBids]
    by (simp add: mult_le_0_iff)
  then have "round (expectedPrice base
               * fst (phaseRelationship basePhase targetPhase
                        (calculateDataDrivenPhaseMultipliers allBids))) \<le> 0"
    by (simp add: round_def floor_le_iff)
  then show False
    using assms by (simp add: deriveFromBase_def Let_def split: prod.splits)
qed

text \<open>
  C1 as stated fails on the cross-phase path. In the history of three sections with a
  negative price, phase 2 is the base phase, with the prices 18, 18 and -39 of equal
  weight: its forecast has the expected price -1 and the three bids -1. Two terms co-occur
  for phase 2 and phase 1, with the median ratio 1.8, so the forecast of phase 3, which
  has no observations, multiplies the base forecast by 0.85 / 1.8. Its expected price is
  \<open>Math.round(-0.47)\<close>, which is 0 and so non-negative, as are its minimum and its
  aggressive bid; its safe bid is \<open>Math.round(-0.54) = -1\<close>, below the aggressive bid.
\<close>

theorem bid_tiers_counterexample:
  "observationsOf P3 negativeHistory = []
   \<and> expectedPrice (phase2 (forecasts (generateForecast winter2024 (courseWith negativeHistory))))
       = - 1
   \<and> expectedPrice (phase3 (forecasts (generateForecast winter2024 (courseWith negativeHistory))))
       = 0
   \<and> minimumBid (phase3 (forecasts (generateForecast winter2024 (courseWith negativeHistory))))
       = 0
   \<and> aggressiveBid (phase3 (forecasts (generateForecast winter2024 (courseWith negativeHistory))))
       = 0
   \<and> safeBid (phase3 (forecasts (generateForecast winter2024 (courseWith negativeHistory))))
       = - 1
   \<and> \<not> tiersOrdered
         (phase3 (forecasts (generateForecast winter2024 (courseWith negativeHistory))))"
proof -
  let ?base = "forecastFromSeries P2 (phaseSeries winter2024 (baseBidsOf negativeHistory))
                 None None None"
  have r1: "round (- 1 :: real) = - 1"
    by (simp add: round_def)
  have e: "expectedPrice ?base = - 1"
    by (simp add: base_of_negativeHistory section_expected r1)
  have v: "volatility ?base = 0"
    by (simp add: forecastFromSeries_volatility base_of_negativeHistory section_series
          section_mean)
  have m: "calculateUncertaintyMargin 3 0 = 0.45"
    by (simp add: calculateUncertaintyMargin_def Let_def CONFIG_defs)
  have r: "round (- (29 / 20) :: real) = - 1" "round (- (31 / 40) :: real) = - 1"
    "round (- (17 / 36) :: real) = 0" "round (- (391 / 720) :: real) = - 1"
    by (simp_all add: round_def floor_unique)
  have l: "length (seriesPrices (phaseSeries winter2024 (baseBidsOf negativeHistory))) = 3"
    by (simp add: base_of_negativeHistory section_series)
  have tiers: "safeBid ?base = - 1" "aggressiveBid ?base = - 1" "minimumBid ?base = - 1"
    by (simp_all add: forecastFromSeries_tiers_eq e v l m r r1)
  have ratio: "fst (phaseRelationship P2 P3 (calculateDataDrivenPhaseMultipliers negativeHistory))
                 = 17 / 36"
    by (simp add: phaseRelationship_ratio crossPhaseRatio_sections)
  have p2: "phase2 (forecasts (generateForecast winter2024 (courseWith negativeHistory))) = ?base"
    by (simp add: phase2_of_generateForecast courseWith_def base_of_negativeHistory
          forecastPhase_nonempty)
  have p3: "phase3 (forecasts (generateForecast winter2024 (courseWith negativeHistory)))
              = deriveFromBase P3 P2 negativeHistory ?base"
    by (simp add: phase3_of_generateForecast courseWith_def base_of_negativeHistory
          forecastPhase_empty)
  have o: "observationsOf P3 negativeHistory = []"
    by (simp add: observationsOf_def normalizePhaseBids_P3 base_of_negativeHistory)
  show ?thesis
    by (simp add: o p2 p3 e deriveFromBase_expected deriveFromBase_bids tiers ratio r
          tiersOrdered_def)
qed

text \<open>
  C1 as amended. The three bid tiers of a forecast result are ordered,
  \<open>minimumBid \<le> aggressiveBid \<le> safeBid\<close>, given a non-negative expected price of the
  forecast from which the tiers are computed: on the direct path (a phase with
  observations) the expected price of the result itself, and on the cross-phase path the
  expected price of the base-phase forecast, which is non-negative in particular whenever
  the derived expected price is positive. The uncertainty margin needs no hypothesis:
  \<open>calculateUncertaintyMargin\<close> always lies in the configured range (lemma
  \<open>calculateUncertaintyMargin_range\<close>).
\<close>

theorem bid_tiers_ordered:
  "(phaseBids \<noteq> [] \<and> 0 \<le> expectedPrice (forecastPhase now ph phaseBids allBids pd mt cp)
      \<longrightarrow> tiersOrdered (forecastPhase now ph phaseBids allBids pd mt cp))
   \<and> (0 \<le> expectedPrice (forecastPhase now (basePhaseOf allBids) (baseBidsOf allBids) allBids
                pd mt cp)
        \<or> 0 < expectedPrice (estimateFromOtherPhases now targetPhase allBids pd mt cp)
      \<longrightarrow> tiersOrdered (estimateFromOtherPhases now targetPhase allBids pd mt cp))"
proof (intro conjI impI)
  assume "phaseBids \<noteq> [] \<and> 0 \<le> expectedPrice (forecastPhase now ph phaseBids allBids pd mt cp)"
  then have ne: "phaseBids \<noteq> []"
    and e: "0 \<le> expectedPrice (forecastPhase now ph phaseBids allBids pd mt cp)"
    by simp_all
  from e have "0 \<le> expectedPrice (forecastFromSeries ph (phaseSeries now phaseBids) pd mt cp)"
    by (simp add: forecastPhase_nonempty [OF ne])
  then show "tiersOrdered (forecastPhase now ph phaseBids allBids pd mt cp)"
    by (simp add: forecastPhase_nonempty [OF ne] forecastFromSeries_tiers(1))
next
  assume h: "0 \<le> expectedPrice (forecastPhase now (basePhaseOf allBids) (baseBidsOf allBids)
                      allBids pd mt cp)
             \<or> 0 < expectedPrice (estimateFromOtherPhases now targetPhase allBids pd mt cp)"
  show "tiersOrdered (estimateFromOtherPhases now targetPhase allBids pd mt cp)"
  proof (cases "baseBidsOf allBids = []")
    case True
    then show ?thesis
      by (simp add: estimateFromOtherPhases_eq forecastPhase_empty noDataResult_def
            tiersOrdered_def)
  next
    case False
    let ?base = "forecastFromSeries (basePhaseOf allBids) (phaseSeries now (baseBidsOf allBids))
                   pd mt cp"
    have "0 \<le> expectedPrice ?base"
      using h False derived_positive_base_positive [of targetPhase "basePhaseOf allBids" allBids ?base]
      by (auto simp: estimateFromOtherPhases_eq forecastPhase_empty forecastPhase_nonempty)
    then show ?thesis
      using False
      by (simp add: estimateFromOtherPhases_eq forecastPhase_empty forecastPhase_nonempty
            deriveFromBase_tiers forecastFromSeries_tiers)
  qed
qed

theorem bid_tiers_ordered_witness:
  "[observation ''Winter 2024'' P1 100 0 0] \<noteq> []
   \<and> 0 \<le> expectedPrice (forecastPhase winter2024 P1 [observation ''Winter 2024'' P1 100 0 0]
               [observation ''Winter 2024'' P1 100 0 0] None None None)
   \<and> tiersOrdered (forecastPhase winter2024 P1 [observation ''Winter 2024'' P1 100 0 0]
        [observation ''Winter 2024'' P1 100 0 0] None None None)
   \<and> tiersOrdered (estimateFromOtherPhases winter2024 P3
        [observation ''Winter 2024'' P1 100 0 0] None None None)"
proof -
  have e: "expectedPrice (forecastPhase winter2024 P1 [observation ''Winter 2024'' P1 100 0 0]
             [observation ''Winter 2024'' P1 100 0 0] None None None) = 100"
    by (simp add: observation_def forecastPhase_nonempty single_observation_expected
          adjustedPrice_def parse_winter2024 winter2024_def getCurrentTermNumber_def
          INFLATION_RATE_def)
  have b: "baseBidsOf [observation ''Winter 2024'' P1 100 0 0]
             = [observation ''Winter 2024'' P1 100 0 0]"
    "basePhaseOf [observation ''Winter 2024'' P1 100 0 0] = P1"
    by (simp_all add: baseBidsOf_def basePhaseOf_def observation_def)
  show ?thesis
    using bid_tiers_ordered [of "[observation ''Winter 2024'' P1 100 0 0]" winter2024 P1
            "[observation ''Winter 2024'' P1 100 0 0]" None None None P3]
    by (simp add: e b)
qed

section \<open>Flat price series\<close>

lemma sum_upt_cong:
  "(\<And>i. i < n \<Longrightarrow> f i = g i) \<Longrightarrow> (\<Sum>i \<leftarrow> [0..<n]. f i) = (\<Sum>i \<leftarrow> [0..<n]. (g i :: real))"
  by (rule arg_cong [where f = sum_list]) (simp add: map_eq_conv)

lemma sum_upt_nth: "length ws = n \<Longrightarrow> (\<Sum>i \<leftarrow> [0..<n]. ws ! i) = sum_list (ws :: real list)"
  by (metis map_nth)

lemma sum_list_pos_weights:
  assumes "\<forall>w \<in> set ws. 0 < (w :: real)" and "ws \<noteq> []"
  shows "0 < sum_list ws"
  using assms
proof (induction ws)
  case Nil
  then show ?case by simp
next
  case (Cons a ws)
  have "0 \<le> sum_list ws"
    using Cons.prems(1) by (intro sum_list_nonneg) (simp add: less_imp_le)
  moreover have "0 < a"
    using Cons.prems(1) by simp
  ultimately show ?case by (simp add: add_pos_nonneg)
qed

lemma slopeSignificance_strength_finite:
  assumes "trendOf (slopeSignificance prices x weights W meanX meanY slope) \<noteq> Stable"
  shows "\<exists>s. strength (slopeSignificance prices x weights W meanX meanY slope) = Num s
             \<and> 0 \<le> s \<and> s \<le> 1"
proof (cases "jsDivide slope meanY")
  case (Num v)
  then show ?thesis by (simp add: slopeSignificance_def Let_def)
next
  case PosInf
  then show ?thesis by (simp add: slopeSignificance_def Let_def)
next
  case NegInf
  then show ?thesis by (simp add: slopeSignificance_def Let_def)
next
  case NaN
  with assms show ?thesis by (simp add: slopeSignificance_def Let_def)
qed

text \<open>
  C6 fails on the code at the constant price 0. For three observations of 0 points at
  three successive terms with equal weights the slope is 0 and the weighted mean price is
  0, so \<open>slope / meanY\<close> is \<open>0 / 0\<close>: \<open>detectTrend\<close> returns the trend \<open>stable\<close> with
  strength \<open>NaN\<close>, not 0.
\<close>

theorem flat_zero_series_strength:
  "detectTrend [0, 0, 0] [20240, 20241, 20242] [1, 1, 1]
     = \<lparr>trendOf = Stable, strength = NaN, pValue = 1, isSignificant = False\<rparr>"
  by (simp add: detectTrend_def slopeSignificance_def TREND_MIN_POINTS_def minOf_def maxOf_def
        Let_def jsDivide_def)

section \<open>Demand pressure\<close>

lemma parse_fall2023: "parseTermToNumber ''Fall 2023'' = 20233"
  by (simp add: parse_defs)

lemma parse_summer2023: "parseTermToNumber ''Summer 2023'' = 20232"
  by (simp add: parse_defs)

lemma sigmoid_inj:
  fixes u v :: real
  assumes "1 / (1 + exp (- u)) = 1 / (1 + exp (- v))"
  shows "u = v"
proof -
  have "0 < 1 + exp (- u)" "0 < 1 + exp (- v)"
    by (simp_all add: add_pos_pos)
  with assms have "1 + exp (- u) = 1 + exp (- v)"
    by (simp add: field_simps)
  then show ?thesis by simp
qed

lemma one_plus_exp_nonzero [simp]: "1 + exp (x::real) \<noteq> 0"
  using exp_gt_zero [of x] by linarith

lemma code_pressure:
  "demandPressure (forecastPhase winter2024 P1 demandHistory demandHistory None None None)
     = 1 / (1 + exp (- (((3 + exp (- (21 / 40))) / (1 + exp (- (21 / 40))) - 2) / 1.5)))"
  apply (simp add: forecastPhase_nonempty demandHistory_def)
  apply (simp add: forecastFromSeries_def Let_def phaseSeries_def observation_def
        parse_winter2024 parse_fall2023 parse_summer2023 winter2024_def getCurrentTermNumber_def
        calculateTimeWeight_def TIME_DECAY_FACTOR_def calculateDemandPressure_def demandLoop_def)
  done

lemma spec_pressure:
  "specDemandPressure winter2024 demandHistory
     = 1 / (1 + exp (- (((3 * exp (- (21 / 40)) + exp (- (3 / 5))) / (exp (- (21 / 40)) + exp (- (3 / 5))) - 2) / 1.5)))"
  by (simp add: specDemandPressure_def demandHistory_def observation_def Let_def
        parse_winter2024 parse_fall2023 parse_summer2023 winter2024_def getCurrentTermNumber_def
        calculateTimeWeight_def TIME_DECAY_FACTOR_def)

lemma averages_differ:
  "(3 + exp (- (21 / 40))) / (1 + exp (- (21 / 40)))
     \<noteq> (3 * exp (- (21 / 40)) + exp (- (3 / 5))) / (exp (- (21 / 40)) + exp (- (3 / 5 :: real)))"
proof
  define b :: real where "b = exp (- (21 / 40))"
  define c :: real where "c = exp (- (3 / 5))"
  have b: "0 < b" and c: "0 < c" by (simp_all add: b_def c_def)
  assume "(3 + exp (- (21 / 40))) / (1 + exp (- (21 / 40)))
     = (3 * exp (- (21 / 40)) + exp (- (3 / 5))) / (exp (- (21 / 40)) + exp (- (3 / 5 :: real)))"
  then have "(3 + b) / (1 + b) = (3 * b + c) / (b + c)"
    by (simp add: b_def c_def)
  then have "(3 + b) * (b + c) = (3 * b + c) * (1 + b)"
    using b c by (simp add: field_simps)
  then have "c = b * b"
    by (simp add: algebra_simps)
  then have "exp (- (3 / 5 :: real)) = exp (- (21 / 40) + - (21 / 40))"
    unfolding exp_add by (simp add: b_def c_def)
  then show False
    by simp
qed

lemma demandLoop_aligned:
  assumes "length spots = length bids" and "\<And>i. i < length bids \<Longrightarrow> 0 < spots ! i \<and> 0 < bids ! i"
  shows "demandLoop bids spots weights
           = ((\<Sum>i \<leftarrow> [0..<length bids]. bids ! i / spots ! i * weights ! i),
              (\<Sum>i \<leftarrow> [0..<length bids]. weights ! i))"
proof -
  define step where "step = (\<lambda>(totalWeightedRatio :: real, totalWeight :: real) i.
              if i < length spots \<and> spots ! i > 0 \<and> bids ! i > 0
              then (totalWeightedRatio + bids ! i / spots ! i * weights ! i,
                    totalWeight + weights ! i)
              else (totalWeightedRatio, totalWeight))"
  have "n \<le> length bids \<Longrightarrow>
        foldl step (0, 0) [0..<n]
          = ((\<Sum>i \<leftarrow> [0..<n]. bids ! i / spots ! i * weights ! i), (\<Sum>i \<leftarrow> [0..<n]. weights ! i))" for n
  proof (induction n)
    case 0
    then show ?case by simp
  next
    case (Suc n)
    then have "n < length bids" by simp
    then show ?case
      using Suc assms by (simp add: step_def)
  qed
  then show ?thesis
    unfolding demandLoop_def step_def by simp
qed

lemma sum_upt_map:
  "(\<Sum>i \<leftarrow> [0..<length xs]. g (xs ! i)) = (\<Sum>x \<leftarrow> xs. (g x :: real))"
proof -
  have "map (\<lambda>i. g (xs ! i)) [0..<length xs] = map g (map ((!) xs) [0..<length xs])"
    by simp
  then show ?thesis
    by (simp only: map_nth)
qed

text \<open>
  Where every observation of the phase has a positive number of bids and of seats the
  three arrays are aligned, and the code computes the weighted mean of the specification.
\<close>

lemma demand_pressure_aligned:
  assumes all: "\<forall>b \<in> set phaseBids. 0 < bidsPlaced b \<and> 0 < spotsAvailable b"
    and ne: "phaseBids \<noteq> []"
  shows "demandPressure (forecastPhase now ph phaseBids allBids pd mt cp)
           = specDemandPressure now phaseBids"
proof -
  define weightOf :: "HistoricalBid \<Rightarrow> real" where
    "weightOf = (\<lambda>b. calculateTimeWeight (parseTermToNumber (termName b)) (getCurrentTermNumber now))"
  have fb: "filter (\<lambda>b. 0 < bidsPlaced b) phaseBids = phaseBids"
    and fs: "filter (\<lambda>b. 0 < spotsAvailable b) phaseBids = phaseBids"
    using all by (simp_all add: filter_id_conv)
  let ?bids = "map bidsPlaced phaseBids" and ?spots = "map spotsAvailable phaseBids"
  let ?ws = "map weightOf phaseBids"
  have loop: "demandLoop ?bids ?spots ?ws
           = ((\<Sum>b \<leftarrow> phaseBids. bidsPlaced b / spotsAvailable b * weightOf b),
              (\<Sum>b \<leftarrow> phaseBids. weightOf b))"
  proof -
    have "demandLoop ?bids ?spots ?ws
           = ((\<Sum>i \<leftarrow> [0..<length ?bids]. ?bids ! i / ?spots ! i * ?ws ! i),
              (\<Sum>i \<leftarrow> [0..<length ?bids]. ?ws ! i))"
      using all by (intro demandLoop_aligned) simp_all
    also have "(\<Sum>i \<leftarrow> [0..<length ?bids]. ?bids ! i / ?spots ! i * ?ws ! i)
                 = (\<Sum>i \<leftarrow> [0..<length phaseBids].
                      bidsPlaced (phaseBids ! i) / spotsAvailable (phaseBids ! i) * weightOf (phaseBids ! i))"
      by (intro arg_cong [where f = sum_list]) simp
    also have "\<dots> = (\<Sum>b \<leftarrow> phaseBids. bidsPlaced b / spotsAvailable b * weightOf b)"
      by (rule sum_upt_map)
    also have "(\<Sum>i \<leftarrow> [0..<length ?bids]. ?ws ! i) = (\<Sum>i \<leftarrow> [0..<length phaseBids]. weightOf (phaseBids ! i))"
      by (intro arg_cong [where f = sum_list]) simp
    also have "\<dots> = (\<Sum>b \<leftarrow> phaseBids. weightOf b)"
      by (rule sum_upt_map)
    finally show ?thesis .
  qed
  have wpos: "0 < (\<Sum>b \<leftarrow> phaseBids. weightOf b)"
    using ne by (intro sum_list_pos_weights) (auto simp: weightOf_def calculateTimeWeight_pos)
  have spots: "\<not> list_all (\<lambda>s. s = 0) ?spots"
    using all ne by (cases phaseBids) (auto simp: list_all_iff)
  have code: "demandPressure (forecastPhase now ph phaseBids allBids pd mt cp)
          = 1 / (1 + exp (- (((\<Sum>b \<leftarrow> phaseBids. bidsPlaced b / spotsAvailable b * weightOf b)
                               / (\<Sum>b \<leftarrow> phaseBids. weightOf b) - 2.0) / 1.5)))"
    using ne wpos spots loop
    by (simp add: forecastPhase_nonempty forecastFromSeries_def Let_def phaseSeries_def fb fs
          calculateDemandPressure_def weightOf_def [symmetric])
  have spec: "specDemandPressure now phaseBids
          = 1 / (1 + exp (- (((\<Sum>b \<leftarrow> phaseBids. weightOf b * (bidsPlaced b / spotsAvailable b))
                               / (\<Sum>b \<leftarrow> phaseBids. weightOf b) - 2.0) / 1.5)))"
    using ne by (simp add: specDemandPressure_def Let_def fs weightOf_def [symmetric])
  show ?thesis
    unfolding code spec by (simp add: mult.commute)
qed


text \<open>With no positive bid count in the phase the pressure is 0.5.\<close>

lemma demand_pressure_no_data:
  assumes "\<forall>b \<in> set phaseBids. bidsPlaced b \<le> 0" and "phaseBids \<noteq> []"
  shows "demandPressure (forecastPhase now ph phaseBids allBids pd mt cp) = 0.5"
proof -
  have "filter (\<lambda>b. 0 < bidsPlaced b) phaseBids = []"
    using assms(1) by (auto simp: filter_empty_conv)
  then show ?thesis
    using assms(2)
    by (simp add: forecastPhase_nonempty forecastFromSeries_def Let_def phaseSeries_def
          calculateDemandPressure_def)
qed

text \<open>
  C9 fails on the code where some observation of the phase lacks demand data.
  \<open>forecastPhase\<close> pushes the positive bid counts and the positive seat counts into two
  arrays of their own, so index \<open>i\<close> of \<open>bidsPlaced\<close>, of \<open>spotsAvailable\<close> and of
  \<open>weights\<close> no longer belongs to one observation. For the history above the code weights
  the ratio 3 of the Fall 2023 observation with the weight of the Winter 2024 observation
  (which has no demand data) and the ratio 1 of Summer 2023 with the weight of Fall 2023;
  the resulting pressure differs from the weighted mean over the observations with seats.
\<close>

theorem demand_pressure_misaligned:
  "demandPressure (forecastPhase winter2024 P1 demandHistory demandHistory None None None)
     \<noteq> specDemandPressure winter2024 demandHistory"
proof
  assume "demandPressure (forecastPhase winter2024 P1 demandHistory demandHistory None None None)
     = specDemandPressure winter2024 demandHistory"
  then have "((3 + exp (- (21 / 40))) / (1 + exp (- (21 / 40))) - 2) / 1.5
     = ((3 * exp (- (21 / 40)) + exp (- (3 / 5))) / (exp (- (21 / 40)) + exp (- (3 / 5 :: real))) - 2) / 1.5"
    unfolding code_pressure spec_pressure by (rule sigmoid_inj)
  moreover have "x = y" if "(x - 2) / 1.5 = (y - 2) / 1.5" for x y :: real
    using that by simp
  ultimately show False
    using averages_differ by blast
qed

section \<open>Cross-phase estimates\<close>











section \<open>Malformed observations\<close>

text \<open>
  C4 as stated fails: the module has no validation and no \<open>throw\<close>. On a course whose
  only observation has the clearing price -100, \<open>generateForecast\<close> returns a forecast
  built from that number: expected price -100, safe bid -150, minimum bid -75,
  confidence \<open>low\<close>.
\<close>

theorem negative_price_counterexample:
  "clearingPrice (observation ''Winter 2024'' P1 (-100) 0 0) < 0
   \<and> expectedPrice (phase1 (forecasts (generateForecast winter2024
        (courseWith [observation ''Winter 2024'' P1 (-100) 0 0])))) = -100
   \<and> safeBid (phase1 (forecasts (generateForecast winter2024
        (courseWith [observation ''Winter 2024'' P1 (-100) 0 0])))) = -150
   \<and> minimumBid (phase1 (forecasts (generateForecast winter2024
        (courseWith [observation ''Winter 2024'' P1 (-100) 0 0])))) = -75
   \<and> confidence (phase1 (forecasts (generateForecast winter2024
        (courseWith [observation ''Winter 2024'' P1 (-100) 0 0])))) = Low"
proof -
  have "round (- 150 :: real) = - 150" "round (- 75 :: real) = - 75"
    by (simp_all add: round_def)
  then show ?thesis
    by (simp add: phase1_of_generateForecast courseWith_def observation_def
          forecastPhase_nonempty single_observation_expected single_observation_bids
          single_observation_confidence adjustedPrice_def parse_winter2024 winter2024_def
          getCurrentTermNumber_def INFLATION_RATE_def)
qed

lemma forecastOf_generateForecast:
  "forecastOf ph (generateForecast now context)
     = forecastPhase now (case ph of PWYB \<Rightarrow> P4 | _ \<Rightarrow> ph)
         (observationsOf ph (historicalBids context)) (historicalBids context)
         (professorData context) (meetingTime context) (campus context)"
  by (cases ph) (simp_all add: forecastOf_def observationsOf_def generateForecast_def Let_def)

lemma forecastFromSeries_counts:
  "confidence (forecastFromSeries ph series pd mt cp)
     = determineConfidence (length (seriesPrices series))"
  "dataPoints (forecastFromSeries ph series pd mt cp) = length (seriesPrices series)"
  by (simp_all add: forecastFromSeries_def Let_def)

lemma determineConfidence_sufficient: "0 < n \<Longrightarrow> determineConfidence n \<noteq> Insufficient"
  by (simp add: determineConfidence_def CONFIG_defs)

lemma cappedStrength_range:
  "0 \<le> numValue (cappedStrength x) \<and> numValue (cappedStrength x) \<le> 1"
  by (cases x) simp_all

lemma if_cases3: "Q a \<Longrightarrow> Q b \<Longrightarrow> Q c \<Longrightarrow> Q (if c1 then a else if c2 then b else c)"
  by simp

lemma slopeSignificance_strength:
  "strength (slopeSignificance prices x weights W meanX meanY slope)
     = cappedStrength (jsDivide slope meanY)"
  by (simp add: slopeSignificance_def Let_def)

lemma detectTrend_strength_range:
  "0 \<le> numValue (strength (detectTrend prices terms weights))
   \<and> numValue (strength (detectTrend prices terms weights)) \<le> 1"
  unfolding detectTrend_def Let_def
  by (rule if_cases3
        [where Q = "\<lambda>r. 0 \<le> numValue (strength r) \<and> numValue (strength r) \<le> 1"])
     (simp_all add: slopeSignificance_strength cappedStrength_range)

lemma ratingMultiplier_pos: "0 < multiplier (calculateRatingImpact r)"
proof (cases r)
  case None
  then show ?thesis by (simp add: calculateRatingImpact_def)
next
  case (Some x)
  have "- 1 < tanh ((x - 5) / 1.5)" by (rule tanh_real_gt_neg1)
  then have "0 < 1 + RATING_IMPACT_SCALE * tanh ((x - 5) / 1.5)"
    by (simp add: RATING_IMPACT_SCALE_def)
  then show ?thesis
    using Some by (simp add: calculateRatingImpact_def Let_def)
qed

lemma pressure_range:
  "0 < pressure (calculateDemandPressure bids spots weights)
   \<and> pressure (calculateDemandPressure bids spots weights) < 1"
proof -
  show ?thesis
    by (simp add: calculateDemandPressure_def Let_def add_pos_pos split: prod.split)
qed

lemma timeSlot_pos: "0 < getTimeSlotAdjustment mt"
  by (simp add: getTimeSlotAdjustment_def Let_def CONFIG_defs split: option.split prod.split)

lemma campus_pos: "0 < getCampusAdjustment cp"
  by (simp add: getCampusAdjustment_def CONFIG_defs split: option.split)

lemma forecastFromSeries_expected_form:
  "\<exists>tm. 0 < tm
     \<and> expectedPrice (forecastFromSeries ph series pd mt cp)
         = of_int (round (mean (weightedStatistics (seriesPrices series) (seriesWeights series))
                          * tm))"
proof -
  let ?t = "detectTrend (seriesPrices series) (seriesTerms series) (seriesWeights series)"
  let ?s = "numValue (strength ?t)"
  let ?dp = "calculateDemandPressure (seriesBidsPlaced series) (seriesSpotsAvailable series)
               (seriesWeights series)"
  let ?a = "if trendOf ?t = Rising then 1 + 0.10 * ?s
            else if trendOf ?t = Falling then 1 - 0.08 * ?s else 1"
  let ?b = "multiplier (calculateRatingImpact (map_option rating pd))"
  let ?c = "if length (seriesBidsPlaced series) > 0 then 1 + (pressure ?dp - 0.5) * 0.20 else 1"
  have s: "0 \<le> ?s" "?s \<le> 1"
    using detectTrend_strength_range [of "seriesPrices series" "seriesTerms series"
            "seriesWeights series"] by simp_all
  have a: "0 < ?a"
    using s by simp
  have b: "0 < ?b" by (rule ratingMultiplier_pos)
  have "0 < 1 + (pressure ?dp - 0.5) * 0.20"
    using pressure_range [of "seriesBidsPlaced series" "seriesSpotsAvailable series"
            "seriesWeights series"] by (simp add: field_simps)
  then have c: "0 < ?c"
    by simp
  have "0 < ?a * ?b * ?c * getTimeSlotAdjustment mt * getCampusAdjustment cp"
    using a b c timeSlot_pos [of mt] campus_pos [of cp] by (intro mult_pos_pos)
  moreover have "expectedPrice (forecastFromSeries ph series pd mt cp)
         = of_int (round (mean (weightedStatistics (seriesPrices series) (seriesWeights series))
                          * (?a * ?b * ?c * getTimeSlotAdjustment mt * getCampusAdjustment cp)))"
    by (simp add: forecastFromSeries_def Let_def)
  ultimately show ?thesis by blast
qed

lemma sum_list_neg:
  assumes "xs \<noteq> []" and "\<forall>x \<in> set xs. f x < (0 :: real)"
  shows "(\<Sum>x \<leftarrow> xs. f x) < 0"
  using assms
proof (induction xs rule: list_nonempty_induct)
  case (single x)
  then show ?case by simp
next
  case (cons x xs)
  then show ?case by (simp add: add_neg_neg)
qed

lemma weighted_mean_neg:
  assumes "vals \<noteq> []" and "length weights = length vals"
    and "\<forall>v \<in> set vals. v < 0" and "\<forall>w \<in> set weights. 0 < w"
  shows "mean (weightedStatistics vals weights) < 0"
proof -
  have W: "0 < sum_list weights"
    using assms by (intro sum_list_pos_weights) auto
  have "vals ! i * (weights ! i / sum_list weights) < 0" if "i < length vals" for i
  proof -
    have "vals ! i < 0" "0 < weights ! i"
      using that assms by simp_all
    then have "vals ! i * weights ! i < 0"
      by (rule mult_neg_pos)
    then have "vals ! i * weights ! i / sum_list weights < 0"
      using W by (rule divide_neg_pos)
    then show ?thesis by simp
  qed
  then have "(\<Sum>i \<leftarrow> [0..<length vals]. vals ! i * (weights ! i / sum_list weights)) < 0"
    using assms(1) by (intro sum_list_neg) simp_all
  moreover have "(\<Sum>i \<leftarrow> [0..<length vals].
                     vals ! i * map (\<lambda>w. w / sum_list weights) weights ! i)
                   = (\<Sum>i \<leftarrow> [0..<length vals]. vals ! i * (weights ! i / sum_list weights))"
    by (rule sum_upt_cong) (simp add: assms(2))
  then have "mean (weightedStatistics vals weights)
                   = (\<Sum>i \<leftarrow> [0..<length vals]. vals ! i * (weights ! i / sum_list weights))"
    using assms(1)
    by (simp add: weightedStatistics_def normalizedWeights_def Let_def)
  ultimately show ?thesis by simp
qed

lemma adjustedPrice_neg: "clearingPrice b < 0 \<Longrightarrow> adjustedPrice c b < 0"
  by (simp add: adjustedPrice_def Let_def INFLATION_RATE_def mult_neg_pos)

lemma phaseSeries_prices:
  "seriesPrices (phaseSeries now bs) = map (adjustedPrice (getCurrentTermNumber now)) bs"
  by (simp add: phaseSeries_def Let_def)

lemma phaseSeries_weights:
  "seriesWeights (phaseSeries now bs)
     = map (\<lambda>b. calculateTimeWeight (parseTermToNumber (termName b)) (getCurrentTermNumber now)) bs"
  by (simp add: phaseSeries_def Let_def)

lemma forecastFromSeries_not_positive:
  assumes "phaseBids \<noteq> []" and "\<forall>b \<in> set phaseBids. clearingPrice b < 0"
  shows "expectedPrice (forecastFromSeries ph (phaseSeries now phaseBids) pd mt cp) \<le> 0"
proof -
  let ?series = "phaseSeries now phaseBids"
  let ?m = "mean (weightedStatistics (seriesPrices ?series) (seriesWeights ?series))"
  have neg: "\<forall>v \<in> set (seriesPrices ?series). v < 0"
    unfolding phaseSeries_prices using assms(2) adjustedPrice_neg by auto
  have pos: "\<forall>w \<in> set (seriesWeights ?series). 0 < w"
    unfolding phaseSeries_weights using calculateTimeWeight_pos by auto
  have ne: "seriesPrices ?series \<noteq> []"
    unfolding phaseSeries_prices using assms(1) by simp
  have len: "length (seriesWeights ?series) = length (seriesPrices ?series)"
    unfolding phaseSeries_prices phaseSeries_weights by simp
  have m: "?m < 0"
    using ne len neg pos by (rule weighted_mean_neg)
  obtain tm where tm: "0 < tm"
    and e: "expectedPrice (forecastFromSeries ph ?series pd mt cp) = of_int (round (?m * tm))"
    using forecastFromSeries_expected_form [of ph ?series pd mt cp] by blast
  have "?m * tm \<le> 0"
    using m tm by (simp add: mult_le_0_iff less_imp_le)
  then have "round (?m * tm) \<le> round (0 :: real)"
    by (rule round_mono)
  then show ?thesis
    unfolding e by simp
qed

text \<open>
  C4 as amended. A malformed observation such as a negative clearing price is not
  rejected: \<open>generateForecast\<close> has no validation. For every course and every phase that
  has observations, whatever their clearing prices are, it returns a forecast of the
  phase whose confidence is determined by the number of these observations alone (it is
  never \<open>insufficient\<close>) and whose number of data points is that number; and if all
  these clearing prices are negative, the expected price of the forecast is not positive.
\<close>

theorem negative_price_not_rejected:
  assumes "observationsOf ph (historicalBids context) \<noteq> []"
  shows "confidence (forecastOf ph (generateForecast now context))
           = determineConfidence (length (observationsOf ph (historicalBids context)))
       \<and> confidence (forecastOf ph (generateForecast now context)) \<noteq> Insufficient
       \<and> dataPoints (forecastOf ph (generateForecast now context))
           = length (observationsOf ph (historicalBids context))
       \<and> ((\<forall>b \<in> set (observationsOf ph (historicalBids context)). clearingPrice b < 0)
            \<longrightarrow> \<not> 0 < expectedPrice (forecastOf ph (generateForecast now context)))"
proof -
  let ?obs = "observationsOf ph (historicalBids context)"
  have eq: "forecastOf ph (generateForecast now context)
              = forecastFromSeries (case ph of PWYB \<Rightarrow> P4 | _ \<Rightarrow> ph) (phaseSeries now ?obs)
                  (professorData context) (meetingTime context) (campus context)"
    using assms by (simp add: forecastOf_generateForecast forecastPhase_nonempty)
  have len: "length (seriesPrices (phaseSeries now ?obs)) = length ?obs"
    by (simp add: phaseSeries_def Let_def)
  have "0 < length ?obs" using assms by simp
  then have "determineConfidence (length ?obs) \<noteq> Insufficient"
    by (rule determineConfidence_sufficient)
  moreover have "expectedPrice (forecastOf ph (generateForecast now context)) \<le> 0"
    if "\<forall>b \<in> set ?obs. clearingPrice b < 0"
    unfolding eq using assms that by (rule forecastFromSeries_not_positive)
  ultimately show ?thesis
    by (auto simp: eq forecastFromSeries_counts len)
qed

theorem negative_price_not_rejected_witness:
  "observationsOf P1 (historicalBids (courseWith [observation ''Winter 2024'' P1 (-100) 0 0]))
     = [observation ''Winter 2024'' P1 (-100) 0 0]
   \<and> clearingPrice (observation ''Winter 2024'' P1 (-100) 0 0) < 0
   \<and> confidence (forecastOf P1 (generateForecast winter2024
        (courseWith [observation ''Winter 2024'' P1 (-100) 0 0]))) = Low
   \<and> dataPoints (forecastOf P1 (generateForecast winter2024
        (courseWith [observation ''Winter 2024'' P1 (-100) 0 0]))) = 1
   \<and> \<not> 0 < expectedPrice (forecastOf P1 (generateForecast winter2024
        (courseWith [observation ''Winter 2024'' P1 (-100) 0 0])))"
proof -
  have o: "observationsOf P1 (historicalBids (courseWith [observation ''Winter 2024'' P1 (-100) 0 0]))
             = [observation ''Winter 2024'' P1 (-100) 0 0]"
    by (simp add: observationsOf_def normalizePhaseBids_P1 courseWith_def observation_def)
  have c: "clearingPrice (observation ''Winter 2024'' P1 (-100) 0 0) < 0"
    by (simp add: observation_def)
  show ?thesis
    using negative_price_not_rejected
            [of P1 "courseWith [observation ''Winter 2024'' P1 (-100) 0 0]" winter2024]
    by (simp add: o c determineConfidence_def CONFIG_defs)
qed

section \<open>Dependence on the clock\<close>

lemma phaseSeries_clock:
  "getCurrentTermNumber n1 = getCurrentTermNumber n2 \<Longrightarrow> phaseSeries n1 bids = phaseSeries n2 bids"
  by (simp add: phaseSeries_def)

lemma forecastPhase_clock:
  assumes "getCurrentTermNumber n1 = getCurrentTermNumber n2"
  shows "forecastPhase n1 ph phaseBids allBids pd mt cp
           = forecastPhase n2 ph phaseBids allBids pd mt cp"
  by (cases "phaseBids = []")
     (simp_all add: forecastPhase_empty forecastPhase_nonempty phaseSeries_clock [OF assms])

lemma expected_at_winter2024:
  "expectedPrice (phase1 (forecasts (generateForecast winter2024
        (courseWith [observation ''Winter 2024'' P1 100 0 0])))) = 100"
  by (simp add: phase1_of_generateForecast courseWith_def observation_def forecastPhase_nonempty
        single_observation_expected adjustedPrice_def
        parse_winter2024 winter2024_def getCurrentTermNumber_def INFLATION_RATE_def)

lemma expected_at_winter2025:
  "expectedPrice (phase1 (forecasts (generateForecast winter2025
        (courseWith [observation ''Winter 2024'' P1 100 0 0])))) \<ge> 103"
proof -
  have "(1.03::real) powr 1 \<le> 1.03 powr (5/2)"
    by (rule powr_mono) simp_all
  then have "(103::real) \<le> 100 * 1.03 powr (5/2)"
    by simp
  then have "(103::int) \<le> round (100 * (1.03::real) powr (5/2))"
    by (simp add: round_def le_floor_iff)
  then show ?thesis
    by (simp add: phase1_of_generateForecast courseWith_def observation_def
          forecastPhase_nonempty single_observation_expected adjustedPrice_def
          parse_winter2024 winter2025_def getCurrentTermNumber_def INFLATION_RATE_def)
qed

text \<open>
  C5 as stated fails: \<open>forecastPhase\<close> calls \<open>getCurrentTermNumber\<close>, which reads the
  system clock, and the time weights and the inflation adjustment are computed from it.
  The same course (one phase-1 observation of 100 points in Winter 2024) is forecast at
  100 points when the clock stands in January 2024 and at 103 points or more when it
  stands in January 2025, so two runs on equal inputs differ.
\<close>

theorem clock_dependence_counterexample:
  "generateForecast winter2024 (courseWith [observation ''Winter 2024'' P1 100 0 0])
     \<noteq> generateForecast winter2025 (courseWith [observation ''Winter 2024'' P1 100 0 0])"
proof
  assume "generateForecast winter2024 (courseWith [observation ''Winter 2024'' P1 100 0 0])
            = generateForecast winter2025 (courseWith [observation ''Winter 2024'' P1 100 0 0])"
  then show False
    using expected_at_winter2024 expected_at_winter2025 by simp
qed

text \<open>
  C5 as amended. \<open>generateForecast\<close> is a function of the course context and of the
  current term number derived from the clock, and of nothing else: two runs on equal
  contexts at clock readings that fall in the same term give equal complete forecasts.
\<close>

theorem forecast_depends_on_term_only:
  assumes "getCurrentTermNumber n1 = getCurrentTermNumber n2"
  shows "generateForecast n1 context = generateForecast n2 context"
  by (simp add: generateForecast_def forecastPhase_clock [OF assms])

theorem forecast_depends_on_term_only_witness:
  "winter2024 \<noteq> march2024
   \<and> getCurrentTermNumber winter2024 = getCurrentTermNumber march2024
   \<and> generateForecast winter2024 (courseWith [observation ''Winter 2024'' P1 100 0 0])
       = generateForecast march2024 (courseWith [observation ''Winter 2024'' P1 100 0 0])"
proof -
  have h: "getCurrentTermNumber winter2024 = getCurrentTermNumber march2024"
    by (simp add: getCurrentTermNumber_def winter2024_def march2024_def)
  have "winter2024 \<noteq> march2024"
    by (simp add: winter2024_def march2024_def)
  then show ?thesis
    using h forecast_depends_on_term_only [OF h] by simp
qed

section \<open>Round trip of the two curve lookups\<close>

lemma plateauCurve_generated:
  "generateWinProbabilityCurve [8, 8, 8, 8, 8, 8, 8, 8, 8, 8] [1, 1, 1, 1, 1, 1, 1, 1, 1, 1] 8 0
     = plateauCurve"
proof -
  have b: "round (1 / 5 :: real) = 0"
    by (simp add: round_def floor_unique)
  have p: "calculateWinProbability b [8, 8, 8, 8, 8, 8, 8, 8, 8, 8]
             [1, 1, 1, 1, 1, 1, 1, 1, 1, 1] 8 0
             = (if b \<le> 0 then 0 else if b \<ge> 8 then 100 else if b \<ge> 7.6 then 50 else 0)" for b
    by (simp add: calculateWinProbability_def weightBeaten_def Let_def)
  show ?thesis
    unfolding generateWinProbabilityCurve_def Let_def plateauCurve_def
    by (simp add: b p curveLoop.simps)
qed









section \<open>Monotone win-probability curve\<close>

lemma quadratic_nonneg:
  fixes a b c t :: real
  assumes "0 < a" and "b\<^sup>2 \<le> 4 * a * c"
  shows "0 \<le> a * t\<^sup>2 + b * t + c"
proof -
  have "4 * a * (a * t\<^sup>2 + b * t + c) = (2 * a * t + b)\<^sup>2 + (4 * a * c - b\<^sup>2)"
    by (simp add: power2_eq_square algebra_simps)
  also have "0 \<le> \<dots>"
    using assms(2) by simp
  finally have "0 \<le> (4 * a) * (a * t\<^sup>2 + b * t + c)" .
  then show ?thesis
    using assms(1) by (simp add: zero_le_mult_iff)
qed

lemma erfPolyDeriv_nonneg: "0 \<le> erfPolyDeriv t"
proof -
  have q1: "0 \<le> 0.32 * t\<^sup>2 + - 0.568993472 * t + 0.254829592"
    by (rule quadratic_nonneg) (simp_all add: power2_eq_square)
  have q2: "0 \<le> 5.307027145 * t\<^sup>2 + - 5.812608108 * t + 3.944241223"
    by (rule quadratic_nonneg) (simp_all add: power2_eq_square)
  have "erfPolyDeriv t = (0.32 * t\<^sup>2 + - 0.568993472 * t + 0.254829592)
          + t\<^sup>2 * (5.307027145 * t\<^sup>2 + - 5.812608108 * t + 3.944241223)"
    by (simp add: erfPolyDeriv_def power2_eq_square power3_eq_cube power4_eq_xxxx algebra_simps)
  also have "0 \<le> \<dots>"
    by (rule add_nonneg_nonneg [OF q1 mult_nonneg_nonneg [OF zero_le_power2 q2]])
  finally show ?thesis .
qed

lemma erfPoly_deriv: "DERIV erfPoly t :> erfPolyDeriv t"
  unfolding erfPoly_def [abs_def] erfPolyDeriv_def
  by (auto intro!: derivative_eq_intros simp: power2_eq_square power3_eq_cube power4_eq_xxxx algebra_simps)

lemma erfPoly_mono: "s \<le> t \<Longrightarrow> erfPoly s \<le> erfPoly t"
  by (rule DERIV_nonneg_imp_nondecreasing) (auto intro: erfPoly_deriv erfPolyDeriv_nonneg)


lemma erfPoly_0: "erfPoly 0 = 0"
  by (simp add: erfPoly_def)

lemma erfPoly_1: "erfPoly 1 = 0.999999999"
  by (simp add: erfPoly_def)

lemma erf_alt: "erf x = (if x \<ge> 0 then 1 else - 1) * (1 - erfTail \<bar>x\<bar>)"
  by (simp add: erf_def erfTail_def erfPoly_def Let_def)

lemma erfPoly_nonneg: "0 \<le> t \<Longrightarrow> 0 \<le> erfPoly t"
  using erfPoly_mono [of 0 t] by (simp add: erfPoly_0)

lemma erfTail_antimono:
  assumes "0 \<le> x" and "x \<le> y"
  shows "erfTail y \<le> erfTail x"
proof -
  have t: "1 / (1 + 0.3275911 * y) \<le> 1 / (1 + 0.3275911 * x)"
    using assms by (intro divide_left_mono) (simp_all add: add_pos_nonneg)
  have p: "erfPoly (1 / (1 + 0.3275911 * y)) \<le> erfPoly (1 / (1 + 0.3275911 * x))"
    using t by (rule erfPoly_mono)
  have p0: "0 \<le> erfPoly (1 / (1 + 0.3275911 * x))"
    using assms by (intro erfPoly_nonneg) simp
  have "x * x \<le> y * y"
    using assms by (intro mult_mono) simp_all
  then have e: "exp (- y * y) \<le> exp (- x * x)"
    by simp
  have e0: "0 \<le> exp (- y * y)"
    by simp
  show ?thesis
    unfolding erfTail_def by (rule mult_mono [OF p e p0 e0])
qed

lemma erfTail_range:
  assumes "0 \<le> x"
  shows "0 \<le> erfTail x" and "erfTail x < 1"
proof -
  have "0 \<le> erfPoly (1 / (1 + 0.3275911 * x))"
    using assms by (intro erfPoly_nonneg) simp
  then show "0 \<le> erfTail x"
    by (simp add: erfTail_def)
  have "erfTail x \<le> erfTail 0"
    using assms by (intro erfTail_antimono) simp_all
  also have "erfTail 0 < 1"
    by (simp add: erfTail_def erfPoly_1)
  finally show "erfTail x < 1" .
qed

lemma erf_mono:
  assumes "x \<le> y"
  shows "erf x \<le> erf y"
proof -
  consider "0 \<le> x" | "y < 0" | "x < 0" "0 \<le> y"
    by linarith
  then show ?thesis
  proof cases
    case 1
    then have "erfTail \<bar>y\<bar> \<le> erfTail \<bar>x\<bar>"
      using assms by (intro erfTail_antimono) simp_all
    then show ?thesis
      using 1 assms by (simp add: erf_alt)
  next
    case 2
    then have "erfTail \<bar>x\<bar> \<le> erfTail \<bar>y\<bar>"
      using assms by (intro erfTail_antimono) simp_all
    then show ?thesis
      using 2 assms by (simp add: erf_alt)
  next
    case 3
    have "erfTail \<bar>x\<bar> < 1" "erfTail \<bar>y\<bar> < 1"
      by (simp_all add: erfTail_range)
    then show ?thesis
      using 3 by (simp add: erf_alt)
  qed
qed

lemma erf_lower: "- 1 \<le> erf x"
proof (cases "0 \<le> x")
  case True
  then show ?thesis
    using erfTail_range [of x] by (simp add: erf_alt)
next
  case False
  then show ?thesis
    using erfTail_range [of "- x"] by (simp add: erf_alt)
qed

lemma logNormalCDF_nonneg: "0 \<le> logNormalCDF x mu sd"
proof -
  have "0 \<le> 0.5 * (1 + erf z)" for z
    using erf_lower [of z] by simp
  then show ?thesis
    by (simp add: logNormalCDF_def Let_def)
qed

lemma logNormalCDF_mono:
  assumes "x \<le> y" and "0 < sd"
  shows "logNormalCDF x mu sd \<le> logNormalCDF y mu sd"
proof (cases "x \<le> 0 \<or> mu \<le> 0")
  case True
  then show ?thesis
    using logNormalCDF_nonneg [of y mu sd] by (auto simp: logNormalCDF_def)
next
  case False
  then have x: "0 < x" and y: "0 < y" and mu: "0 < mu"
    using assms(1) by simp_all
  define s where "s = sqrt (ln (1 + sd * sd / (mu * mu))) * sqrt 2"
  have "0 < sd * sd / (mu * mu)"
    using assms(2) mu by simp
  then have "0 < ln (1 + sd * sd / (mu * mu))"
    by simp
  then have s: "0 < s"
    by (simp add: s_def)
  have "ln x \<le> ln y"
    using x assms(1) by simp
  then have "(ln x - (ln mu - 0.5 * ln (1 + sd * sd / (mu * mu)))) / s
               \<le> (ln y - (ln mu - 0.5 * ln (1 + sd * sd / (mu * mu)))) / s"
    using s by (intro divide_right_mono) simp_all
  then have "erf ((ln x - (ln mu - 0.5 * ln (1 + sd * sd / (mu * mu)))) / s)
               \<le> erf ((ln y - (ln mu - 0.5 * ln (1 + sd * sd / (mu * mu)))) / s)"
    by (rule erf_mono)
  then show ?thesis
    using x y mu by (simp add: logNormalCDF_def Let_def s_def)
qed


lemma weightBeaten_mono:
  assumes "length weights = length prices" and "\<forall>w \<in> set weights. 0 < w" and "b1 \<le> b2"
  shows "weightBeaten b1 prices weights \<le> weightBeaten b2 prices weights"
  unfolding weightBeaten_def
proof (rule sum_list_mono)
  fix i assume "i \<in> set [0..<length prices]"
  then have "weights ! i \<in> set weights"
    using assms(1) by simp
  then have "0 < weights ! i"
    using assms(2) by blast
  then show "(if prices ! i \<le> b1 then weights ! i
              else if prices ! i * 0.95 \<le> b1 then weights ! i * 0.5 else 0)
           \<le> (if prices ! i \<le> b2 then weights ! i
              else if prices ! i * 0.95 \<le> b2 then weights ! i * 0.5 else 0)"
    using assms(3) by auto
qed

lemma weightBeaten_nonneg:
  assumes "length weights = length prices" and "\<forall>w \<in> set weights. 0 < w"
  shows "0 \<le> weightBeaten b prices weights"
  unfolding weightBeaten_def
proof (rule sum_list_nonneg)
  fix x assume "x \<in> set (map (\<lambda>i. if prices ! i \<le> b then weights ! i
              else if prices ! i * 0.95 \<le> b then weights ! i * 0.5 else 0) [0..<length prices])"
  then obtain i where i: "i < length prices"
    and x: "x = (if prices ! i \<le> b then weights ! i
              else if prices ! i * 0.95 \<le> b then weights ! i * 0.5 else 0)"
    by auto
  have "weights ! i \<in> set weights"
    using assms(1) i by simp
  then have "0 < weights ! i"
    using assms(2) by blast
  then show "0 \<le> x"
    by (simp add: x)
qed

lemma blend_mono:
  assumes "e1 \<le> e2" and "p1 \<le> p2"
  shows "blend n e1 p1 \<le> blend n e2 p2"
proof -
  have a: "0 \<le> min 1 (real n / 6)" "0 \<le> 1 - min 1 (real n / 6)"
    and b: "0 \<le> min 1 (real n / 10)"
    by simp_all
  have "min 1 (real n / 10) * e1 \<le> min 1 (real n / 10) * e2"
    using assms(1) b by (rule mult_left_mono)
  then have "min 1 (real n / 6) * (min 1 (real n / 10) * e1 + (1 - min 1 (real n / 10)) * 0.5)
           \<le> min 1 (real n / 6) * (min 1 (real n / 10) * e2 + (1 - min 1 (real n / 10)) * 0.5)"
    using a(1) by (intro mult_left_mono) simp_all
  moreover have "(1 - min 1 (real n / 6)) * p1 \<le> (1 - min 1 (real n / 6)) * p2"
    using assms(2) a(2) by (rule mult_left_mono)
  ultimately show ?thesis
    unfolding blend_def by (rule add_mono)
qed

lemma blend_nonneg:
  assumes "0 \<le> e" and "0 \<le> p"
  shows "0 \<le> blend n e p"
proof -
  have "0 \<le> min 1 (real n / 6)" "0 \<le> 1 - min 1 (real n / 6)"
    "0 \<le> min 1 (real n / 10)" "0 \<le> 1 - min 1 (real n / 10)"
    by simp_all
  then show ?thesis
    unfolding blend_def using assms
    by (intro add_nonneg_nonneg mult_nonneg_nonneg) simp_all
qed

lemma calculateWinProbability_data:
  assumes "0 < b" and "prices \<noteq> []"
  shows "calculateWinProbability b prices weights expected sd
           = of_int (round (blend (length prices)
                               (weightBeaten b prices weights / sum_list weights)
                               (logNormalCDF b expected (max sd (expected * 0.15))) * 100))"
  using assms by (simp add: calculateWinProbability_def blend_def Let_def)

lemma calculateWinProbability_nonneg:
  assumes "length weights = length prices" and "\<forall>w \<in> set weights. 0 < w"
  shows "0 \<le> calculateWinProbability b prices weights expected sd"
proof (cases "0 < b \<and> prices \<noteq> []")
  case True
  then have "weights \<noteq> []" using assms(1) by auto
  then have "0 < sum_list weights"
    using assms(2) by (intro sum_list_pos_weights) simp_all
  then have "0 \<le> weightBeaten b prices weights / sum_list weights"
    using weightBeaten_nonneg [OF assms] by simp
  then have "0 \<le> blend (length prices) (weightBeaten b prices weights / sum_list weights)
                   (logNormalCDF b expected (max sd (expected * 0.15))) * 100"
    using logNormalCDF_nonneg by (intro mult_nonneg_nonneg blend_nonneg) simp_all
  then have "0 \<le> round (blend (length prices) (weightBeaten b prices weights / sum_list weights)
                   (logNormalCDF b expected (max sd (expected * 0.15))) * 100)"
    using round_mono [of 0] by fastforce
  then show ?thesis
    using True by (simp add: calculateWinProbability_data)
next
  case False
  then show ?thesis
    using logNormalCDF_nonneg [of b expected "max sd (expected * 0.2)"]
    by (auto simp: calculateWinProbability_def)
qed

lemma calculateWinProbability_mono:
  assumes "length weights = length prices" and "\<forall>w \<in> set weights. 0 < w"
    and "0 < expected" and "b1 \<le> b2"
  shows "calculateWinProbability b1 prices weights expected sd
           \<le> calculateWinProbability b2 prices weights expected sd"
proof (cases "0 < b1")
  case False
  then have "calculateWinProbability b1 prices weights expected sd = 0"
    by (simp add: calculateWinProbability_def)
  then show ?thesis
    using calculateWinProbability_nonneg [OF assms(1,2)] by simp
next
  case True
  then have b2: "0 < b2" using assms(4) by simp
  show ?thesis
  proof (cases "prices = []")
    case True
    have "logNormalCDF b1 expected (max sd (expected * 0.2))
            \<le> logNormalCDF b2 expected (max sd (expected * 0.2))"
      using assms(3,4) by (intro logNormalCDF_mono) (simp_all add: less_max_iff_disj)
    then show ?thesis
      using True \<open>0 < b1\<close> b2 assms(3) by (simp add: calculateWinProbability_def)
  next
    case False
    then have "weights \<noteq> []" using assms(1) by auto
    then have "0 < sum_list weights"
      using assms(2) by (intro sum_list_pos_weights) simp_all
    then have e: "weightBeaten b1 prices weights / sum_list weights
                 \<le> weightBeaten b2 prices weights / sum_list weights"
      using weightBeaten_mono [OF assms(1,2,4)] by (simp add: divide_right_mono)
    have p: "logNormalCDF b1 expected (max sd (expected * 0.15))
            \<le> logNormalCDF b2 expected (max sd (expected * 0.15))"
      using assms(3,4) by (intro logNormalCDF_mono) (simp_all add: less_max_iff_disj)
    have "blend (length prices) (weightBeaten b1 prices weights / sum_list weights)
            (logNormalCDF b1 expected (max sd (expected * 0.15))) * 100
          \<le> blend (length prices) (weightBeaten b2 prices weights / sum_list weights)
            (logNormalCDF b2 expected (max sd (expected * 0.15))) * 100"
      using blend_mono [OF e p] by simp
    then show ?thesis
      using False \<open>0 < b1\<close> b2 by (simp add: calculateWinProbability_data round_mono)
  qed
qed

lemma curveLoop_points:
  "p \<in> set (curveLoop prob b maxBid stepRaw) \<Longrightarrow> probability p = prob (bid p)"
proof (induction prob b maxBid stepRaw rule: curveLoop.induct)
  case (1 prob b maxBid stepRaw)
  show ?case
  proof (cases "b \<le> maxBid")
    case True
    then have "curveLoop prob b maxBid stepRaw
                 = \<lparr>bid = of_int b, probability = prob (of_int b)\<rparr>
                     # curveLoop prob (b + max 1 stepRaw) maxBid stepRaw"
      by (subst curveLoop.simps) simp
    with "1.prems" "1.IH" [OF True] show ?thesis
      by auto
  next
    case False
    then have "curveLoop prob b maxBid stepRaw = []"
      by (subst curveLoop.simps) simp
    with "1.prems" show ?thesis by simp
  qed
qed

lemma generateWinProbabilityCurve_monotone:
  assumes "length weights = length prices" and "\<forall>w \<in> set weights. 0 < w"
    and "p1 \<in> set (generateWinProbabilityCurve prices weights expected sd)"
    and "p2 \<in> set (generateWinProbabilityCurve prices weights expected sd)"
    and "bid p1 \<le> bid p2"
  shows "probability p1 \<le> probability p2"
proof (cases "expected \<le> 0")
  case True
  then show ?thesis
    using assms(3) by (simp add: generateWinProbabilityCurve_def)
next
  case False
  then have e: "0 < expected" by simp
  have "probability p1 = calculateWinProbability (bid p1) prices weights expected sd"
    "probability p2 = calculateWinProbability (bid p2) prices weights expected sd"
    using assms(3,4) False curveLoop_points [of p1] curveLoop_points [of p2]
    by (simp_all add: generateWinProbabilityCurve_def Let_def)
  then show ?thesis
    using calculateWinProbability_mono [OF assms(1,2) e assms(5)] by simp
qed

lemma forecastFromSeries_curve:
  "\<exists>prices expected sd.
     probabilityData (forecastFromSeries ph (phaseSeries now phaseBids) pd mt cp)
       = Some (generateWinProbabilityCurve prices (seriesWeights (phaseSeries now phaseBids)) expected sd)
     \<and> length prices = length phaseBids"
  by (simp add: forecastFromSeries_def Let_def phaseSeries_def split del: if_split)
     (rule exI, rule conjI, rule exI, rule exI, rule refl, simp)

lemma deriveFromBase_curve:
  "\<exists>expected sd.
     probabilityData (deriveFromBase targetPhase basePhase allBids base)
       = Some (generateWinProbabilityCurve [] [] expected sd)"
  by (simp add: deriveFromBase_def Let_def split: prod.split) blast

text \<open>
  In particular the curve of every forecast result is monotone, on the direct and on the
  cross-phase path: the time weights are exponentials, hence positive.
\<close>

lemma forecastPhase_curve_monotone:
  assumes c: "probabilityData (forecastPhase now ph phaseBids allBids pd mt cp) = Some curve"
    and p: "p1 \<in> set curve" "p2 \<in> set curve" and le: "bid p1 \<le> bid p2"
  shows "probability p1 \<le> probability p2"
proof (cases "phaseBids = []")
  case False
  obtain prices expected sd where
    "probabilityData (forecastFromSeries ph (phaseSeries now phaseBids) pd mt cp)
       = Some (generateWinProbabilityCurve prices (seriesWeights (phaseSeries now phaseBids)) expected sd)"
    and l: "length prices = length phaseBids"
    using forecastFromSeries_curve by blast
  then have curve: "curve = generateWinProbabilityCurve prices (seriesWeights (phaseSeries now phaseBids)) expected sd"
    using c False by (simp add: forecastPhase_nonempty)
  show ?thesis
  proof (rule generateWinProbabilityCurve_monotone)
    show "length (seriesWeights (phaseSeries now phaseBids)) = length prices"
      using l by (simp add: phaseSeries_def Let_def)
    show "\<forall>w \<in> set (seriesWeights (phaseSeries now phaseBids)). 0 < w"
      by (auto simp: phaseSeries_def Let_def calculateTimeWeight_pos)
    show "p1 \<in> set (generateWinProbabilityCurve prices (seriesWeights (phaseSeries now phaseBids)) expected sd)"
      "p2 \<in> set (generateWinProbabilityCurve prices (seriesWeights (phaseSeries now phaseBids)) expected sd)"
      using p curve by simp_all
    show "bid p1 \<le> bid p2" by (rule le)
  qed
next
  case True
  show ?thesis
  proof (cases "baseBidsOf allBids = []")
    case True
    with \<open>phaseBids = []\<close> c show ?thesis
      by (simp add: forecastPhase_empty noDataResult_def)
  next
    case False
    obtain expected sd where
      "probabilityData (deriveFromBase ph (basePhaseOf allBids) allBids
          (forecastFromSeries (basePhaseOf allBids) (phaseSeries now (baseBidsOf allBids)) pd mt cp))
         = Some (generateWinProbabilityCurve [] [] expected sd)"
      using deriveFromBase_curve by blast
    then have curve: "curve = generateWinProbabilityCurve [] [] expected sd"
      using c False \<open>phaseBids = []\<close> by (simp add: forecastPhase_empty)
    show ?thesis
      by (rule generateWinProbabilityCurve_monotone [of "[]" "[]" p1 expected sd p2])
         (use p curve le in simp_all)
  qed
qed

text \<open>
  C7. On every curve produced by \<open>generateWinProbabilityCurve\<close> (for parallel arrays of
  prices and positive weights, as \<open>forecastPhase\<close> passes them, or for no observations, as
  \<open>estimateFromOtherPhases\<close> does), the probability is non-decreasing in the bid: for any
  two sample points with \<open>bid1 \<le> bid2\<close>, \<open>probability(bid1) \<le> probability(bid2)\<close>.
\<close>

theorem win_probability_curve_monotone:
  assumes "length weights = length prices" and "\<forall>w \<in> set weights. 0 < w"
    and "p1 \<in> set (generateWinProbabilityCurve prices weights expected sd)"
    and "p2 \<in> set (generateWinProbabilityCurve prices weights expected sd)"
    and "bid p1 \<le> bid p2"
  shows "probability p1 \<le> probability p2"
  using assms by (rule generateWinProbabilityCurve_monotone)

theorem win_probability_curve_monotone_witness:
  "length [1, 1, 1, 1, 1, 1, 1, 1, 1, 1 :: real] = length [8, 8, 8, 8, 8, 8, 8, 8, 8, 8 :: real]
   \<and> \<lparr>bid = 7, probability = 0\<rparr>
       \<in> set (generateWinProbabilityCurve [8, 8, 8, 8, 8, 8, 8, 8, 8, 8]
                [1, 1, 1, 1, 1, 1, 1, 1, 1, 1] 8 0)
   \<and> \<lparr>bid = 8, probability = 100\<rparr>
       \<in> set (generateWinProbabilityCurve [8, 8, 8, 8, 8, 8, 8, 8, 8, 8]
                [1, 1, 1, 1, 1, 1, 1, 1, 1, 1] 8 0)
   \<and> probability \<lparr>bid = 7, probability = 0\<rparr> \<le> probability \<lparr>bid = 8, probability = 100\<rparr>"
proof -
  have m: "\<lparr>bid = 7, probability = 0\<rparr>
             \<in> set (generateWinProbabilityCurve [8, 8, 8, 8, 8, 8, 8, 8, 8, 8]
                      [1, 1, 1, 1, 1, 1, 1, 1, 1, 1] 8 0)"
    "\<lparr>bid = 8, probability = 100\<rparr>
       \<in> set (generateWinProbabilityCurve [8, 8, 8, 8, 8, 8, 8, 8, 8, 8]
                [1, 1, 1, 1, 1, 1, 1, 1, 1, 1] 8 0)"
    by (simp_all add: plateauCurve_generated plateauCurve_def)
  have l: "length [1, 1, 1, 1, 1, 1, 1, 1, 1, 1 :: real] = length [8, 8, 8, 8, 8, 8, 8, 8, 8, 8 :: real]"
    and w: "\<forall>w \<in> set [1, 1, 1, 1, 1, 1, 1, 1, 1, 1 :: real]. 0 < w"
    by simp_all
  have "bid \<lparr>bid = 7, probability = 0\<rparr> \<le> bid \<lparr>bid = 8, probability = 100\<rparr>"
    by simp
  from win_probability_curve_monotone [OF l w m this] l m show ?thesis
    by blast
qed

section \<open>The curve lookups at their boundaries\<close>

text \<open>
  C10. At the curve-lookup interface: an undefined or empty curve gives 50 for every bid,
  and on a non-empty curve every bid that is zero or negative gives probability 0.
\<close>

theorem getWinProbabilityForBid_edge_cases:
  "getWinProbabilityForBid b None = 50 \<and>
   getWinProbabilityForBid b (Some []) = 50 \<and>
   (pd \<noteq> [] \<and> b \<le> 0 \<longrightarrow> getWinProbabilityForBid b (Some pd) = 0)"
  by (simp add: getWinProbabilityForBid_def)

theorem getWinProbabilityForBid_edge_cases_witness:
  "getWinProbabilityForBid (-3) None = 50 \<and>
   getWinProbabilityForBid (-3) (Some []) = 50 \<and>
   getWinProbabilityForBid (-3) (Some [\<lparr>bid = 50, probability = 10\<rparr>]) = 0"
  using getWinProbabilityForBid_edge_cases [of "-3" "[\<lparr>bid = 50, probability = 10\<rparr>]"]
  by simp

end
